theory Spec2Isabelle
  imports Main
begin

text \<open>
  A model of \<open>src/agents/pi-tools.before-tool-call.ts\<close>: the two functions that run
  the \<open>before_tool_call\<close> and \<open>tool_result_received\<close> plugin hooks, and the wrapper
  that puts them around a tool's \<open>execute\<close>. A promise is modelled by its settlement:
  \<open>Inr\<close> the value it resolves with, \<open>Inl\<close> the value it rejects with; every
  collaborator is taken to settle.
\<close>

section \<open>Values\<close>

text \<open>
  Params and results are of type \<open>unknown\<close> in the source. They are modelled as the
  data values the code can tell apart: \<open>undefined\<close>, \<open>null\<close>, booleans, (integer)
  numbers, strings, arrays and objects. An object is the list of its own enumerable
  properties in insertion order; a well-formed object has pairwise distinct keys.
\<close>

datatype jsval =
    JUndefined
  | JNull
  | JBool bool
  | JNum int
  | JStr string
  | JArr "jsval list"
  | JObj "(string \<times> jsval) list"

text \<open>
  A thrown value (the reason of a rejected promise): an error object with its
  \<open>name\<close> and \<open>message\<close>, or any other value. \<open>new Error(m)\<close> is
  \<open>new_Error m\<close>.
\<close>

datatype thrown =
    JsError string string
  | Thrown jsval

definition new_Error :: "string \<Rightarrow> thrown" where
  "new_Error message = JsError ''Error'' message"

text \<open>The \<open>typeof\<close> operator and \<open>Array.isArray\<close> on these values.\<close>

fun typeof :: "jsval \<Rightarrow> string" where
  "typeof JUndefined = ''undefined''"
| "typeof JNull = ''object''"
| "typeof (JBool b) = ''boolean''"
| "typeof (JNum n) = ''number''"
| "typeof (JStr s) = ''string''"
| "typeof (JArr xs) = ''object''"
| "typeof (JObj ps) = ''object''"

fun Array_isArray :: "jsval \<Rightarrow> bool" where
  "Array_isArray (JArr xs) = True"
| "Array_isArray v = False"

text \<open>Truthiness, as \<open>&&\<close>, \<open>||\<close>, \<open>!\<close> and \<open>?:\<close> test it.\<close>

fun truthy :: "jsval \<Rightarrow> bool" where
  "truthy JUndefined = False"
| "truthy JNull = False"
| "truthy (JBool b) = b"
| "truthy (JNum n) = (n \<noteq> 0)"
| "truthy (JStr s) = (s \<noteq> [])"
| "truthy (JArr xs) = True"
| "truthy (JObj ps) = True"

text \<open>Line 15: \<open>isPlainObject\<close>.\<close>

definition isPlainObject :: "jsval \<Rightarrow> bool" where
  "isPlainObject v \<longleftrightarrow> typeof v = ''object'' \<and> v \<noteq> JNull \<and> \<not> Array_isArray v"

text \<open>
  Object spread. \<open>set_prop k v ps\<close> defines property \<open>k\<close> on the object \<open>ps\<close>: an
  existing key keeps its position and takes the new value, a new key is appended.
  \<open>spread_into src acc\<close> copies the properties of \<open>src\<close> onto \<open>acc\<close> in order, and
  the literal \<open>{ ...a, ...b }\<close> starts from the empty object.
\<close>

fun set_prop :: "string \<Rightarrow> 'a \<Rightarrow> (string \<times> 'a) list \<Rightarrow> (string \<times> 'a) list" where
  "set_prop k v [] = [(k, v)]"
| "set_prop k v ((k', v') # ps) = (if k' = k then (k, v) # ps else (k', v') # set_prop k v ps)"

fun spread_into :: "(string \<times> 'a) list \<Rightarrow> (string \<times> 'a) list \<Rightarrow> (string \<times> 'a) list" where
  "spread_into [] acc = acc"
| "spread_into ((k, v) # src) acc = spread_into src (set_prop k v acc)"

fun props_of :: "jsval \<Rightarrow> (string \<times> jsval) list" where
  "props_of (JObj ps) = ps"
| "props_of v = []"

definition spread2 :: "jsval \<Rightarrow> jsval \<Rightarrow> jsval" where
  "spread2 a b = JObj (spread_into (props_of b) (spread_into (props_of a) []))"

section \<open>Collaborators\<close>

text \<open>
  Modelled from the spec: the types of the hook runner's interface, which the source
  imports and does not declare (section 6 of the specification):
  \<open>hasHooks(eventName) -> bool\<close>,
  \<open>runBeforeToolCall(payload, context) -> {block?, blockReason?, params?} | undefined\<close>,
  \<open>runToolResultReceived(payload, context) -> {block?, blockReason?, result?} | undefined\<close>.
  An optional boolean or string field is an \<open>option\<close>; the fields \<open>params\<close> and
  \<open>result\<close> are values, \<open>JUndefined\<close> when the field is absent, since the source
  tests them at run time. Every call may throw or reject (\<open>Inl\<close>).
\<close>

record HookContext =
  agentId :: "string option"
  sessionKey :: "string option"

record before_event =
  ev_toolName :: string
  ev_params :: jsval

record after_event = before_event +
  ev_result :: jsval
  ev_durationMs :: "int option"

record tool_context =
  tc_toolName :: string
  tc_agentId :: "string option"
  tc_sessionKey :: "string option"

record verdict =
  block :: "bool option"
  blockReason :: "string option"

record before_result = verdict +
  params :: jsval

record after_result = verdict +
  result :: jsval

record HookRunner =
  hasHooks :: "string \<Rightarrow> thrown + bool"
  runBeforeToolCall :: "before_event \<Rightarrow> tool_context \<Rightarrow> thrown + before_result option"
  runToolResultReceived :: "after_event \<Rightarrow> tool_context \<Rightarrow> thrown + after_result option"

text \<open>
  The process-wide collaborators of one call: the global hook runner (absent when none
  is installed), the tool-name normaliser, the conversion \<open>String(err)\<close> of a thrown
  value to text, and the logger's \<open>warn\<close>. They are parameters of the model. The
  conversion can throw (\<open>Inl\<close>), as it does on a value whose \<open>toString\<close> throws, and
  so can the logger (\<open>Some\<close> the value it throws).
\<close>

record env =
  getGlobalHookRunner :: "HookRunner option"
  normalizeToolName :: "string \<Rightarrow> string"
  js_String :: "thrown \<Rightarrow> thrown + string"
  log_warn :: "string \<Rightarrow> thrown option"

text \<open>The cancellation signal and the progress callback are opaque to this code.\<close>

typedecl AbortSignal
typedecl UpdateCallback

text \<open>
  What a call leaves behind: the calls made to the hook runner and to underlying
  tools and the warnings written to the log, in order, and the clock that
  \<open>Date.now()\<close> reads.
\<close>

datatype event =
    RunBeforeToolCall before_event tool_context
  | RunToolResultReceived after_event tool_context
  | ToolExecuted string jsval "AbortSignal option" "UpdateCallback option"
  | LogWarn string

record world =
  events :: "event list"
  clock :: int

definition emit :: "event \<Rightarrow> world \<Rightarrow> world" where
  "emit e w = w\<lparr>events := events w @ [e]\<rparr>"

section \<open>The hook invocation layer\<close>

text \<open>Line 11: \<open>HookOutcome\<close>, and the return type of line 74.\<close>

datatype HookOutcome =
    Blocked string
  | Allowed jsval

record ResultOutcome =
  blocked :: bool
  reason :: "string option"
  outcome_result :: jsval

text \<open>
  \<open>s || d\<close> on a string and on an optional string (the empty string and
  \<open>undefined\<close> are falsy), and the truth of an optional boolean.
\<close>

definition str_or :: "string \<Rightarrow> string \<Rightarrow> string" where
  "str_or s d = (if s = [] then d else s)"

definition or_default :: "string option \<Rightarrow> string \<Rightarrow> string" where
  "or_default x d = (case x of None \<Rightarrow> d | Some s \<Rightarrow> if s = [] then d else s)"

definition is_true :: "bool option \<Rightarrow> bool" where
  "is_true b = (case b of None \<Rightarrow> False | Some t \<Rightarrow> t)"

text \<open>Lines 60 and 108: the call id as it is written into the warning.\<close>

definition toolCallId_text :: "string option \<Rightarrow> string" where
  "toolCallId_text toolCallId =
     (case toolCallId of
        None \<Rightarrow> []
      | Some i \<Rightarrow> if i = [] then [] else '' toolCallId='' @ i)"

definition tool_context_of :: "string \<Rightarrow> HookContext option \<Rightarrow> tool_context" where
  "tool_context_of toolName ctx =
     \<lparr>tc_toolName = toolName,
      tc_agentId = (case ctx of None \<Rightarrow> None | Some c \<Rightarrow> agentId c),
      tc_sessionKey = (case ctx of None \<Rightarrow> None | Some c \<Rightarrow> sessionKey c)\<rparr>"

text \<open>
  Lines 19 to 65. The arguments object is written as curried arguments. A throw of
  \<open>hasHooks\<close> is outside the \<open>try\<close> and rejects the promise (\<open>Inl\<close>); a throw or
  rejection of \<open>runBeforeToolCall\<close> is caught. Inside the \<open>catch\<close>, lines 60 and 61
  build the message with \<open>String(err)\<close> and hand it to \<open>log.warn\<close>; a throw of either
  is not caught and rejects the promise.
\<close>

definition runBeforeToolCallHook ::
  "env \<Rightarrow> string \<Rightarrow> jsval \<Rightarrow> string option \<Rightarrow> HookContext option \<Rightarrow> world
     \<Rightarrow> (thrown + HookOutcome) \<times> world" where
  "runBeforeToolCallHook env toolName0 params0 toolCallId ctx w =
     (case getGlobalHookRunner env of
        None \<Rightarrow> (Inr (Allowed params0), w)
      | Some hookRunner \<Rightarrow>
          (case hasHooks hookRunner ''before_tool_call'' of
             Inl err \<Rightarrow> (Inl err, w)
           | Inr False \<Rightarrow> (Inr (Allowed params0), w)
           | Inr True \<Rightarrow>
               (let toolName = normalizeToolName env (str_or toolName0 ''tool'');
                    normalizedParams = (if isPlainObject params0 then params0 else JObj []);
                    ev = \<lparr>ev_toolName = toolName, ev_params = normalizedParams\<rparr>;
                    tc = tool_context_of toolName ctx;
                    w1 = emit (RunBeforeToolCall ev tc) w
                in case runBeforeToolCall hookRunner ev tc of
                     Inl err \<Rightarrow>
                       (case js_String env err of
                          Inl err2 \<Rightarrow> (Inl err2, w1)
                        | Inr text \<Rightarrow>
                            (let message = ''before_tool_call hook failed: tool='' @ toolName
                                   @ toolCallId_text toolCallId @ '' error='' @ text;
                                 w2 = emit (LogWarn message) w1
                             in case log_warn env message of
                                  Some err3 \<Rightarrow> (Inl err3, w2)
                                | None \<Rightarrow> (Inr (Allowed params0), w2)))
                   | Inr hookResult \<Rightarrow>
                       if (case hookResult of None \<Rightarrow> False | Some r \<Rightarrow> is_true (block r))
                       then (Inr (Blocked (or_default
                               (case hookResult of None \<Rightarrow> None | Some r \<Rightarrow> blockReason r)
                               ''Tool call blocked by plugin hook'')), w1)
                       else if (case hookResult of None \<Rightarrow> False
                                | Some r \<Rightarrow> truthy (params r) \<and> isPlainObject (params r))
                       then (if isPlainObject params0
                             then (Inr (Allowed (spread2 params0
                                     (case hookResult of None \<Rightarrow> JUndefined | Some r \<Rightarrow> params r))), w1)
                             else (Inr (Allowed
                                     (case hookResult of None \<Rightarrow> JUndefined | Some r \<Rightarrow> params r)), w1))
                       else (Inr (Allowed params0), w1))))"

text \<open>Lines 67 to 115, with the same \<open>catch\<close> (lines 107 to 112).\<close>

definition runToolResultReceivedHook ::
  "env \<Rightarrow> string \<Rightarrow> jsval \<Rightarrow> jsval \<Rightarrow> string option \<Rightarrow> HookContext option \<Rightarrow> int option
     \<Rightarrow> world \<Rightarrow> (thrown + ResultOutcome) \<times> world" where
  "runToolResultReceivedHook env toolName0 params0 result0 toolCallId ctx durationMs w =
     (case getGlobalHookRunner env of
        None \<Rightarrow> (Inr \<lparr>blocked = False, reason = None, outcome_result = result0\<rparr>, w)
      | Some hookRunner \<Rightarrow>
          (case hasHooks hookRunner ''tool_result_received'' of
             Inl err \<Rightarrow> (Inl err, w)
           | Inr False \<Rightarrow> (Inr \<lparr>blocked = False, reason = None, outcome_result = result0\<rparr>, w)
           | Inr True \<Rightarrow>
               (let toolName = normalizeToolName env (str_or toolName0 ''tool'');
                    ev = \<lparr>ev_toolName = toolName, ev_params = params0,
                          ev_result = result0, ev_durationMs = durationMs\<rparr>;
                    tc = tool_context_of toolName ctx;
                    w1 = emit (RunToolResultReceived ev tc) w
                in case runToolResultReceived hookRunner ev tc of
                     Inl err \<Rightarrow>
                       (case js_String env err of
                          Inl err2 \<Rightarrow> (Inl err2, w1)
                        | Inr text \<Rightarrow>
                            (let message = ''tool_result_received hook failed: tool='' @ toolName
                                   @ toolCallId_text toolCallId @ '' error='' @ text;
                                 w2 = emit (LogWarn message) w1
                             in case log_warn env message of
                                  Some err3 \<Rightarrow> (Inl err3, w2)
                                | None \<Rightarrow>
                                    (Inr \<lparr>blocked = False, reason = None,
                                           outcome_result = result0\<rparr>, w2)))
                   | Inr hookResult \<Rightarrow>
                       if (case hookResult of None \<Rightarrow> False | Some r \<Rightarrow> is_true (block r))
                       then (Inr \<lparr>blocked = True,
                                  reason = Some (or_default
                                    (case hookResult of None \<Rightarrow> None | Some r \<Rightarrow> blockReason r)
                                    ''Tool result blocked by plugin hook''),
                                  outcome_result = result0\<rparr>, w1)
                       else if (case hookResult of None \<Rightarrow> JUndefined | Some r \<Rightarrow> result r) \<noteq> JUndefined
                       then (Inr \<lparr>blocked = False, reason = None,
                                  outcome_result =
                                    (case hookResult of None \<Rightarrow> JUndefined | Some r \<Rightarrow> result r)\<rparr>, w1)
                       else (Inr \<lparr>blocked = False, reason = None, outcome_result = result0\<rparr>, w1))))"

section \<open>The tool wrapping layer\<close>

text \<open>
  A function that stands in the place of \<open>execute\<close> is the code of an underlying
  tool, or the closure that lines 128 to 161 build, which captures \<open>toolName\<close>, the
  saved \<open>execute\<close> and \<open>ctx\<close>, or a value that is no function at all. An
  underlying tool is a function of its receiver (the reference of the object it is
  called on as \<open>this\<close>, or \<open>None\<close> when it is called unbound) and its four arguments,
  giving its outcome (\<open>Inl\<close> when it throws or rejects) and the time it ran, in
  milliseconds.
\<close>

datatype execute_fn =
    Native "nat option \<Rightarrow> string \<Rightarrow> jsval \<Rightarrow> AbortSignal option \<Rightarrow> UpdateCallback option
              \<Rightarrow> (thrown + jsval) \<times> int"
  | Hooked string execute_fn "HookContext option"
  | NotCallable jsval

text \<open>
  Calling such a function with a receiver. For an underlying tool the call is
  recorded and the clock advances. Calling a value that is no function throws a
  \<open>TypeError\<close>. For the closure this is the body of lines 128 to 161: it is an arrow
  function, so its receiver plays no part, and line 142 calls the saved \<open>execute\<close>
  unbound, that is with no receiver; an awaited promise that rejects (\<open>Inl\<close>) ends
  the call with that same rejection, as no \<open>try\<close> encloses the \<open>await\<close>s.
\<close>

fun call ::
  "env \<Rightarrow> nat option \<Rightarrow> execute_fn \<Rightarrow> string \<Rightarrow> jsval \<Rightarrow> AbortSignal option
     \<Rightarrow> UpdateCallback option \<Rightarrow> world \<Rightarrow> (thrown + jsval) \<times> world" where
  "call env this (Native f) toolCallId params1 signal onUpdate w =
     (case f this toolCallId params1 signal onUpdate of
        (outcome, elapsed) \<Rightarrow>
          (outcome, (emit (ToolExecuted toolCallId params1 signal onUpdate) w)
                      \<lparr>clock := clock w + elapsed\<rparr>))"
| "call env this (NotCallable v) toolCallId params1 signal onUpdate w =
     (Inl (JsError ''TypeError'' ''execute is not a function''), w)"
| "call env this (Hooked toolName execute1 ctx) toolCallId params1 signal onUpdate w =
     (case runBeforeToolCallHook env toolName params1 (Some toolCallId) ctx w of
        (Inl err, w1) \<Rightarrow> (Inl err, w1)
      | (Inr (Blocked reason1), w1) \<Rightarrow> (Inl (new_Error reason1), w1)
      | (Inr (Allowed params2), w1) \<Rightarrow>
          (let startTime = clock w1 in
           case call env None execute1 toolCallId params2 signal onUpdate w1 of
             (Inl err, w2) \<Rightarrow> (Inl err, w2)
           | (Inr result1, w2) \<Rightarrow>
               (let durationMs = clock w2 - startTime in
                case runToolResultReceivedHook env toolName params2 result1
                       (Some toolCallId) ctx (Some durationMs) w2 of
                  (Inl err, w3) \<Rightarrow> (Inl err, w3)
                | (Inr afterOutcome, w3) \<Rightarrow>
                    if blocked afterOutcome
                    then (Inl (new_Error (case reason afterOutcome of None \<Rightarrow> [] | Some r \<Rightarrow> r)), w3)
                    else (Inr (outcome_result afterOutcome), w3))))"

text \<open>
  Modelled from the spec: the tool type \<open>AnyAgentTool\<close>, which the source imports and
  does not declare (section 3 of the specification: a name and an asynchronous
  execution capability). A tool is an object. What the source does with it depends on
  where its members live: reading \<open>tool.execute\<close> and \<open>tool.name\<close> finds own and
  inherited members alike, while the spread of line 127 copies the own enumerable
  properties only. So a tool has its own enumerable properties, in insertion order,
  and its other members: those that are not enumerable and those it inherits. A
  member is a data value or a function; a property holds it directly or is an
  accessor, whose getter returns a member or throws, the same at every read. A
  well-formed object has pairwise distinct keys among its own enumerable
  properties. Tools are objects in a store, so that returning the same object and
  building a new one differ; references below \<open>fresh\<close> are allocated.
\<close>

datatype member =
    Data jsval
  | Method execute_fn

datatype slot =
    Plain member
  | Getter "thrown + member"

record tool_obj =
  own :: "(string \<times> slot) list"
  other :: "(string \<times> slot) list"

record heap =
  objs :: "nat \<Rightarrow> tool_obj"
  fresh :: nat

text \<open>
  Reading a property: an own enumerable property first, then the other members; a
  getter is run; a member that is nowhere reads as \<open>undefined\<close>.
\<close>

fun read_slot :: "slot \<Rightarrow> thrown + member" where
  "read_slot (Plain m) = Inr m"
| "read_slot (Getter g) = g"

definition get_prop :: "tool_obj \<Rightarrow> string \<Rightarrow> thrown + member" where
  "get_prop t k =
     (case map_of (own t) k of
        Some s \<Rightarrow> read_slot s
      | None \<Rightarrow> (case map_of (other t) k of Some s \<Rightarrow> read_slot s | None \<Rightarrow> Inr (Data JUndefined)))"

fun member_truthy :: "member \<Rightarrow> bool" where
  "member_truthy (Data v) = truthy v"
| "member_truthy (Method f) = True"

fun callee_of :: "member \<Rightarrow> execute_fn" where
  "callee_of (Method f) = f"
| "callee_of (Data v) = NotCallable v"

text \<open>
  Line 125: \<open>tool.name || "tool"\<close>. By the tool's type a name is a string; any other
  member in its place is taken as no name.
\<close>

fun name_or_tool :: "member \<Rightarrow> string" where
  "name_or_tool (Data (JStr s)) = str_or s ''tool''"
| "name_or_tool m = ''tool''"

text \<open>
  The spread \<open>...tool\<close> of line 127: every own enumerable property is read, in order,
  and defined on the new object as a data property; a getter that throws ends it.
\<close>

fun copy_props :: "(string \<times> slot) list \<Rightarrow> (string \<times> slot) list \<Rightarrow> thrown + (string \<times> slot) list" where
  "copy_props [] acc = Inr acc"
| "copy_props ((k, s) # src) acc =
     (case read_slot s of
        Inl err \<Rightarrow> Inl err
      | Inr m \<Rightarrow> copy_props src (set_prop k (Plain m) acc))"

text \<open>
  Lines 117 to 163. The object literal of line 126 allocates a new object, whose
  only members are the properties the literal defines. A getter that throws when
  line 121, 125 or 127 reads it makes the wrapper throw (\<open>Inl\<close>).
\<close>

definition wrapToolWithBeforeToolCallHook ::
  "nat \<Rightarrow> HookContext option \<Rightarrow> heap \<Rightarrow> thrown + nat \<times> heap" where
  "wrapToolWithBeforeToolCallHook tool ctx h =
     (case get_prop (objs h tool) ''execute'' of
        Inl err \<Rightarrow> Inl err
      | Inr execute1 \<Rightarrow>
          if \<not> member_truthy execute1 then Inr (tool, h)
          else
            (case get_prop (objs h tool) ''name'' of
               Inl err \<Rightarrow> Inl err
             | Inr name1 \<Rightarrow>
                 (let toolName = name_or_tool name1 in
                  case copy_props (own (objs h tool)) [] of
                    Inl err \<Rightarrow> Inl err
                  | Inr copied \<Rightarrow>
                      (let wrapped =
                             \<lparr>own = set_prop ''execute''
                                      (Plain (Method (Hooked toolName (callee_of execute1) ctx)))
                                      copied,
                              other = []\<rparr>
                       in Inr (fresh h,
                               h\<lparr>objs := (objs h)(fresh h := wrapped),
                                 fresh := Suc (fresh h)\<rparr>)))))"

text \<open>The name that the closure built for a tool captures.\<close>

definition captured_name :: "tool_obj \<Rightarrow> string" where
  "captured_name t = (case get_prop t ''name'' of Inl err \<Rightarrow> ''tool'' | Inr name1 \<Rightarrow> name_or_tool name1)"

text \<open>
  A caller's \<open>tool.execute(toolCallId, params, signal, onUpdate)\<close> on a tool of the
  store: the member is read and called with the tool as its receiver.
\<close>

definition invoke ::
  "env \<Rightarrow> heap \<Rightarrow> nat \<Rightarrow> string \<Rightarrow> jsval \<Rightarrow> AbortSignal option \<Rightarrow> UpdateCallback option
     \<Rightarrow> world \<Rightarrow> (thrown + jsval) \<times> world" where
  "invoke env h tool toolCallId params1 signal onUpdate w =
     (case get_prop (objs h tool) ''execute'' of
        Inl err \<Rightarrow> (Inl err, w)
      | Inr execute1 \<Rightarrow>
          call env (Some tool) (callee_of execute1) toolCallId params1 signal onUpdate w)"

text \<open>The executions of underlying tools that a trace records: call id and params.\<close>

fun tool_calls :: "event list \<Rightarrow> (string \<times> jsval) list" where
  "tool_calls [] = []"
| "tool_calls (ToolExecuted c p sg up # es) = (c, p) # tool_calls es"
| "tool_calls (e # es) = tool_calls es"

text \<open>The payloads that a trace records as handed to \<open>runBeforeToolCall\<close>.\<close>

fun before_payloads :: "event list \<Rightarrow> before_event list" where
  "before_payloads [] = []"
| "before_payloads (RunBeforeToolCall ev tc # es) = ev # before_payloads es"
| "before_payloads (e # es) = before_payloads es"

section \<open>Sample collaborators\<close>

text \<open>Concrete collaborators, tools and stores on which the theorems are instantiated.\<close>

text \<open>
  A conversion to text: an error object gives its name and message; a thrown object
  makes the conversion throw, as \<open>String\<close> does on an object without a prototype.
\<close>

definition sample_String :: "thrown \<Rightarrow> thrown + string" where
  "sample_String e =
     (case e of
        JsError n m \<Rightarrow> Inr (n @ '': '' @ m)
      | Thrown v \<Rightarrow>
          (case v of
             JObj ps \<Rightarrow> Inl (JsError ''TypeError'' ''Cannot convert object to primitive value'')
           | _ \<Rightarrow> Inr ''thrown value''))"

definition sample_normalize :: "string \<Rightarrow> string" where
  "sample_normalize s = (if s = ''bash'' then ''exec'' else s)"

definition sample_env :: "HookRunner option \<Rightarrow> env" where
  "sample_env hr =
     \<lparr>getGlobalHookRunner = hr, normalizeToolName = sample_normalize,
      js_String = sample_String, log_warn = (\<lambda>message. None)\<rparr>"

definition idle_runner :: HookRunner where
  "idle_runner =
     \<lparr>hasHooks = (\<lambda>e. Inr False),
      runBeforeToolCall = (\<lambda>ev tc. Inr None),
      runToolResultReceived = (\<lambda>ev tc. Inr None)\<rparr>"

definition broken_registry_runner :: HookRunner where
  "broken_registry_runner =
     \<lparr>hasHooks = (\<lambda>e. Inl (JsError ''Error'' ''registry unavailable'')),
      runBeforeToolCall = (\<lambda>ev tc. Inr None),
      runToolResultReceived = (\<lambda>ev tc. Inr None)\<rparr>"

definition sample_runner ::
  "(thrown + before_result option) \<Rightarrow> (thrown + after_result option) \<Rightarrow> HookRunner" where
  "sample_runner b a =
     \<lparr>hasHooks = (\<lambda>e. Inr True),
      runBeforeToolCall = (\<lambda>ev tc. b),
      runToolResultReceived = (\<lambda>ev tc. a)\<rparr>"

definition echo_tool :: execute_fn where
  "echo_tool = Native (\<lambda>this c p sg up. (Inr p, 5))"

definition failing_tool :: execute_fn where
  "failing_tool = Native (\<lambda>this c p sg up. (Inl (JsError ''TypeError'' ''boom''), 2))"

text \<open>A tool whose \<open>execute\<close> reads a field of \<open>this\<close>.\<close>

definition this_tool :: execute_fn where
  "this_tool =
     Native (\<lambda>this c p sg up.
       case this of
         None \<Rightarrow> (Inl (JsError ''TypeError'' ''Cannot read properties of undefined''), 1)
       | Some r \<Rightarrow> (Inr p, 5))"

text \<open>A tool written as an object literal, and a store that holds it.\<close>

definition sample_tool :: "member \<Rightarrow> tool_obj" where
  "sample_tool ex =
     \<lparr>own = [(''name'', Plain (Data (JStr ''bash''))),
             (''label'', Plain (Data (JStr ''Bash''))),
             (''execute'', Plain ex)],
      other = []\<rparr>"

definition sample_heap :: "member \<Rightarrow> heap" where
  "sample_heap ex = \<lparr>objs = (\<lambda>r. sample_tool ex), fresh = 1\<rparr>"

text \<open>The store after the sample tool has been wrapped with no context.\<close>

definition wrapped_sample_heap :: "member \<Rightarrow> heap" where
  "wrapped_sample_heap ex =
     \<lparr>objs = (\<lambda>r. sample_tool ex)
        (1 := \<lparr>own = [(''name'', Plain (Data (JStr ''bash''))),
                      (''label'', Plain (Data (JStr ''Bash''))),
                      (''execute'', Plain (Method (Hooked ''bash'' (callee_of ex) None)))],
               other = []\<rparr>),
      fresh = 2\<rparr>"




definition w0 :: world where
  "w0 = \<lparr>events = [], clock = 1000\<rparr>"

section \<open>Auxiliary facts\<close>

lemma map_of_set_prop: "map_of (set_prop k v ps) k' = (if k' = k then Some v else map_of ps k')"
  by (induction ps) auto

lemma keys_set_prop: "fst ` set (set_prop k v ps) = insert k (fst ` set ps)"
  by (induction k v ps rule: set_prop.induct) (simp_all add: insert_commute)

lemma distinct_set_prop: "distinct (map fst ps) \<Longrightarrow> distinct (map fst (set_prop k v ps))"
  by (induction k v ps rule: set_prop.induct) (auto simp: keys_set_prop)

lemma distinct_spread_into:
  "distinct (map fst acc) \<Longrightarrow> distinct (map fst (spread_into src acc))"
  by (induction src acc rule: spread_into.induct) (auto simp: distinct_set_prop)

lemma map_of_spread_into:
  "distinct (map fst src) \<Longrightarrow>
   map_of (spread_into src acc) k = (case map_of src k of Some v \<Rightarrow> Some v | None \<Rightarrow> map_of acc k)"
proof (induction src acc rule: spread_into.induct)
  case (1 acc)
  then show ?case by simp
next
  case (2 k' v src acc)
  then show ?case
    by (auto simp: map_of_set_prop split: option.splits dest: map_of_SomeD intro: rev_image_eqI)
qed

lemma keys_spread_into:
  "fst ` set (spread_into src acc) = fst ` set src \<union> fst ` set acc"
  by (induction src acc rule: spread_into.induct) (auto simp: keys_set_prop)





lemma str_or_idem: "str_or (str_or s ''tool'') ''tool'' = str_or s ''tool''"
  by (simp add: str_or_def)

lemma str_or_name_or_tool: "str_or (name_or_tool m) ''tool'' = name_or_tool m"
  by (induction m rule: name_or_tool.induct) (simp_all add: str_or_def)

lemma str_or_captured_name: "str_or (captured_name t) ''tool'' = captured_name t"
proof (cases "get_prop t ''name''")
  case (Inl err)
  then show ?thesis by (simp add: captured_name_def str_or_def)
next
  case (Inr m)
  then show ?thesis by (simp add: captured_name_def str_or_name_or_tool)
qed

text \<open>The closure takes no account of its receiver; an underlying tool may.\<close>

lemma call_Hooked_receiver:
  "call env this (Hooked tn ex ctx) c p sg up w = call env None (Hooked tn ex ctx) c p sg up w"
  by simp

lemma call_receiver_free:
  "(\<And>f. ex = Native f \<Longrightarrow> f this = f this') \<Longrightarrow>
   call env this ex c p sg up w = call env this' ex c p sg up w"
  by (cases ex) simp_all

text \<open>Invoking the tool that the wrapper built is calling the closure of lines 128 to 161.\<close>

lemma wrapped_object:
  assumes "get_prop (objs h tool) ''execute'' = Inr m"
    and "member_truthy m"
    and "wrapToolWithBeforeToolCallHook tool ctx h = Inr (tool', h')"
  shows "\<exists>copied. copy_props (own (objs h tool)) [] = Inr copied
         \<and> tool' = fresh h
         \<and> h' = h\<lparr>objs := (objs h)(fresh h :=
                   \<lparr>own = set_prop ''execute''
                      (Plain (Method (Hooked (captured_name (objs h tool)) (callee_of m) ctx)))
                      copied,
                    other = []\<rparr>),
                 fresh := Suc (fresh h)\<rparr>"
  using assms
  by (auto simp: wrapToolWithBeforeToolCallHook_def captured_name_def Let_def split: sum.splits)

lemma invoke_wrapped:
  assumes "get_prop (objs h tool) ''execute'' = Inr m"
    and "member_truthy m"
    and "wrapToolWithBeforeToolCallHook tool ctx h = Inr (tool', h')"
  shows "invoke env h' tool' c p sg up w =
         call env None (Hooked (captured_name (objs h tool)) (callee_of m) ctx) c p sg up w"
proof -
  from wrapped_object[OF assms] obtain copied where
    "tool' = fresh h"
    "h' = h\<lparr>objs := (objs h)(fresh h :=
                   \<lparr>own = set_prop ''execute''
                      (Plain (Method (Hooked (captured_name (objs h tool)) (callee_of m) ctx)))
                      copied,
                    other = []\<rparr>),
                 fresh := Suc (fresh h)\<rparr>"
    by blast
  then have "get_prop (objs h' tool') ''execute''
      = Inr (Method (Hooked (captured_name (objs h tool)) (callee_of m) ctx))"
    by (simp add: get_prop_def map_of_set_prop)
  then show ?thesis
    by (simp add: invoke_def)
qed

lemma runBefore_idle:
  assumes "getGlobalHookRunner env = None \<or>
      (\<exists>hr. getGlobalHookRunner env = Some hr \<and> hasHooks hr ''before_tool_call'' = Inr False)"
  shows "runBeforeToolCallHook env tn p c ctx w = (Inr (Allowed p), w)"
  using assms by (auto simp: runBeforeToolCallHook_def)

lemma runAfter_idle:
  assumes "getGlobalHookRunner env = None \<or>
      (\<exists>hr. getGlobalHookRunner env = Some hr \<and> hasHooks hr ''tool_result_received'' = Inr False)"
  shows "runToolResultReceivedHook env tn p r c ctx d w =
         (Inr \<lparr>blocked = False, reason = None, outcome_result = r\<rparr>, w)"
  using assms by (auto simp: runToolResultReceivedHook_def)

lemma call_idle:
  assumes "getGlobalHookRunner env = None \<or>
      (\<exists>hr. getGlobalHookRunner env = Some hr \<and> hasHooks hr ''before_tool_call'' = Inr False
           \<and> hasHooks hr ''tool_result_received'' = Inr False)"
  shows "call env this (Hooked tn ex ctx) c p sg up w = call env None ex c p sg up w"
proof -
  have b: "runBeforeToolCallHook env tn p (Some c) ctx w = (Inr (Allowed p), w)"
    using assms by (intro runBefore_idle) auto
  have a: "\<And>r d w'. runToolResultReceivedHook env tn p r (Some c) ctx d w' =
         (Inr \<lparr>blocked = False, reason = None, outcome_result = r\<rparr>, w')"
    using assms by (intro runAfter_idle) auto
  show ?thesis
    by (cases "call env None ex c p sg up w") (auto simp: b a split: sum.splits)
qed

text \<open>Neither hook function executes a tool; a wrapped underlying tool runs once.\<close>

lemma tool_calls_append: "tool_calls (xs @ ys) = tool_calls xs @ tool_calls ys"
  by (induction xs rule: tool_calls.induct) simp_all

lemma before_payloads_append: "before_payloads (xs @ ys) = before_payloads xs @ before_payloads ys"
  by (induction xs rule: before_payloads.induct) simp_all

lemma tool_calls_runBefore:
  "tool_calls (events (snd (runBeforeToolCallHook env tn p c ctx w))) = tool_calls (events w)"
  by (simp add: runBeforeToolCallHook_def Let_def emit_def tool_calls_append
      split: option.splits sum.splits bool.splits)

lemma tool_calls_runAfter:
  "tool_calls (events (snd (runToolResultReceivedHook env tn p r c ctx d w))) = tool_calls (events w)"
  by (simp add: runToolResultReceivedHook_def Let_def emit_def tool_calls_append
      split: option.splits sum.splits bool.splits)

lemma call_native_allowed:
  assumes "runBeforeToolCallHook env tn p (Some c) ctx w = (Inr (Allowed p'), w1)"
  shows "tool_calls (events (snd (call env this (Hooked tn (Native f) ctx) c p sg up w)))
         = tool_calls (events w) @ [(c, p')]"
proof -
  have w1: "tool_calls (events w1) = tool_calls (events w)"
    using tool_calls_runBefore[of env tn p "Some c" ctx w] assms by simp
  obtain out dt where f: "f None c p' sg up = (out, dt)"
    by (cases "f None c p' sg up")
  show ?thesis
  proof (cases out)
    case (Inl e)
    then show ?thesis
      using assms f w1 by (simp add: emit_def tool_calls_append)
  next
    case (Inr r)
    let ?w2 = "(emit (ToolExecuted c p' sg up) w1)\<lparr>clock := clock w1 + dt\<rparr>"
    obtain o3 w3 where a: "runToolResultReceivedHook env tn p' r (Some c) ctx
          (Some (clock ?w2 - clock w1)) ?w2 = (o3, w3)"
      by (cases "runToolResultReceivedHook env tn p' r (Some c) ctx (Some (clock ?w2 - clock w1)) ?w2")
    have w3: "tool_calls (events w3) = tool_calls (events ?w2)"
      using tool_calls_runAfter[of env tn p' r "Some c" ctx "Some (clock ?w2 - clock w1)" ?w2] a
      by simp
    have "snd (call env this (Hooked tn (Native f) ctx) c p sg up w) = w3"
      using assms f Inr a by (simp add: Let_def split: sum.splits)
    then show ?thesis
      using w3 w1 by (simp add: emit_def tool_calls_append)
  qed
qed

text \<open>The sample tool and its wrapping, evaluated.\<close>

lemma sample_execute: "get_prop (objs (sample_heap ex) 0) ''execute'' = Inr ex"
  by (simp add: sample_heap_def sample_tool_def get_prop_def)

lemma sample_captured_name: "captured_name (objs (sample_heap ex) 0) = ''bash''"
  by (simp add: sample_heap_def sample_tool_def get_prop_def captured_name_def str_or_def)

lemma sample_wrap:
  "member_truthy ex \<Longrightarrow>
   wrapToolWithBeforeToolCallHook 0 None (sample_heap ex) = Inr (1, wrapped_sample_heap ex)"
  by (simp add: wrapToolWithBeforeToolCallHook_def sample_heap_def sample_tool_def get_prop_def
      wrapped_sample_heap_def str_or_def Let_def)

lemma sample_toolName: "normalizeToolName (sample_env hr) ''bash'' = ''exec''"
  by (simp add: sample_env_def sample_normalize_def)

lemma sample_tool_context:
  "tool_context_of ''exec'' None = \<lparr>tc_toolName = ''exec'', tc_agentId = None, tc_sessionKey = None\<rparr>"
  by (simp add: tool_context_of_def)


section \<open>The claims\<close>

text \<open>
  C1 (pass-through identity), as the code has it. For a tool whose execution
  capability takes no account of its receiver, when no hook runner is installed, or
  the installed runner reports no handlers for \<open>before_tool_call\<close> and none for
  \<open>tool_result_received\<close>, invoking the tool built by
  \<open>wrapToolWithBeforeToolCallHook\<close> gives the same outcome (result or rejection) and
  the same trace as invoking the original tool; an underlying tool is executed once,
  with exactly the call id, params, signal and progress callback of the invocation.
\<close>

theorem C1_pass_through_identity:
  assumes "getGlobalHookRunner env = None \<or>
      (\<exists>hr. getGlobalHookRunner env = Some hr \<and> hasHooks hr ''before_tool_call'' = Inr False
           \<and> hasHooks hr ''tool_result_received'' = Inr False)"
    and "get_prop (objs h tool) ''execute'' = Inr (Method ex)"
    and "\<forall>f. ex = Native f \<longrightarrow> (\<forall>this. f this = f None)"
    and "wrapToolWithBeforeToolCallHook tool ctx h = Inr (tool', h')"
  shows "invoke env h' tool' c p sg up w = invoke env h tool c p sg up w
       \<and> (\<forall>f. ex = Native f \<longrightarrow>
            invoke env h' tool' c p sg up w =
              (fst (f None c p sg up),
               w\<lparr>events := events w @ [ToolExecuted c p sg up],
                 clock := clock w + snd (f None c p sg up)\<rparr>))"
proof -
  have "invoke env h' tool' c p sg up w = call env None ex c p sg up w"
    using invoke_wrapped[OF assms(2) _ assms(4)] call_idle[OF assms(1)] by simp
  moreover have "call env (Some tool) ex c p sg up w = call env None ex c p sg up w"
    using assms(3) by (intro call_receiver_free) simp
  then have "invoke env h tool c p sg up w = call env None ex c p sg up w"
    using assms(2) by (simp add: invoke_def)
  ultimately show ?thesis
    by (auto simp: emit_def split: prod.splits)
qed

text \<open>C1 on the echo tool, with a runner that has no handlers.\<close>

theorem C1_witness:
  "getGlobalHookRunner (sample_env (Some idle_runner)) = Some idle_runner
   \<and> hasHooks idle_runner ''before_tool_call'' = Inr False
   \<and> hasHooks idle_runner ''tool_result_received'' = Inr False
   \<and> get_prop (objs (sample_heap (Method echo_tool)) 0) ''execute'' = Inr (Method echo_tool)
   \<and> wrapToolWithBeforeToolCallHook 0 None (sample_heap (Method echo_tool))
       = Inr (1, wrapped_sample_heap (Method echo_tool))
   \<and> invoke (sample_env (Some idle_runner)) (wrapped_sample_heap (Method echo_tool)) 1
        ''call-1'' (JStr ''raw-string'') None None w0
      = invoke (sample_env (Some idle_runner)) (sample_heap (Method echo_tool)) 0
        ''call-1'' (JStr ''raw-string'') None None w0
   \<and> invoke (sample_env (Some idle_runner)) (wrapped_sample_heap (Method echo_tool)) 1
        ''call-1'' (JStr ''raw-string'') None None w0
      = (Inr (JStr ''raw-string''),
         \<lparr>events = [ToolExecuted ''call-1'' (JStr ''raw-string'') None None], clock = 1005\<rparr>)"
proof -
  let ?env = "sample_env (Some idle_runner)"
  let ?h = "sample_heap (Method echo_tool)"
  let ?h' = "wrapped_sample_heap (Method echo_tool)"
  have g: "getGlobalHookRunner ?env = Some idle_runner"
    by (simp add: sample_env_def)
  have hb: "hasHooks idle_runner ''before_tool_call'' = Inr False"
    and ha: "hasHooks idle_runner ''tool_result_received'' = Inr False"
    by (simp_all add: idle_runner_def)
  have e: "get_prop (objs ?h 0) ''execute'' = Inr (Method echo_tool)"
    by (rule sample_execute)
  have rf: "\<forall>f. echo_tool = Native f \<longrightarrow> (\<forall>this. f this = f None)"
    by (simp add: echo_tool_def)
  have wr: "wrapToolWithBeforeToolCallHook 0 None ?h = Inr (1, ?h')"
    by (rule sample_wrap) simp
  have r: "getGlobalHookRunner ?env = None \<or>
      (\<exists>hr. getGlobalHookRunner ?env = Some hr \<and> hasHooks hr ''before_tool_call'' = Inr False
           \<and> hasHooks hr ''tool_result_received'' = Inr False)"
    using g hb ha by simp
  note inst = C1_pass_through_identity[OF r e rf wr, of "''call-1''" "JStr ''raw-string''" None None w0]
  have c1: "invoke ?env ?h' 1 ''call-1'' (JStr ''raw-string'') None None w0
      = invoke ?env ?h 0 ''call-1'' (JStr ''raw-string'') None None w0"
    using inst by (rule conjunct1)
  have c2: "invoke ?env ?h' 1 ''call-1'' (JStr ''raw-string'') None None w0
      = (Inr (JStr ''raw-string''),
         \<lparr>events = [ToolExecuted ''call-1'' (JStr ''raw-string'') None None], clock = 1005\<rparr>)"
    using inst[THEN conjunct2, rule_format, of "\<lambda>this c p sg up. (Inr p, 5)"]
    by (simp add: echo_tool_def w0_def)
  show ?thesis
    using g hb ha e wr c1 c2 by blast
qed

text \<open>
  C1 as stated covers every tool. Line 121 saves \<open>tool.execute\<close> and line 142 calls
  it unbound: a tool whose \<open>execute\<close> reads \<open>this\<close> resolves when it is invoked
  directly and rejects when it is invoked through the wrapper, with no hook runner
  installed.
\<close>

theorem C1_counterexample:
  "getGlobalHookRunner (sample_env None) = None
   \<and> get_prop (objs (sample_heap (Method this_tool)) 0) ''execute'' = Inr (Method this_tool)
   \<and> wrapToolWithBeforeToolCallHook 0 None (sample_heap (Method this_tool))
       = Inr (1, wrapped_sample_heap (Method this_tool))
   \<and> invoke (sample_env None) (sample_heap (Method this_tool)) 0
        ''call-1'' (JStr ''raw-string'') None None w0
      = (Inr (JStr ''raw-string''),
         \<lparr>events = [ToolExecuted ''call-1'' (JStr ''raw-string'') None None], clock = 1005\<rparr>)
   \<and> invoke (sample_env None) (wrapped_sample_heap (Method this_tool)) 1
        ''call-1'' (JStr ''raw-string'') None None w0
      = (Inl (JsError ''TypeError'' ''Cannot read properties of undefined''),
         \<lparr>events = [ToolExecuted ''call-1'' (JStr ''raw-string'') None None], clock = 1001\<rparr>)"
proof -
  have g: "getGlobalHookRunner (sample_env None) = None"
    by (simp add: sample_env_def)
  have e: "get_prop (objs (sample_heap (Method this_tool)) 0) ''execute'' = Inr (Method this_tool)"
    by (rule sample_execute)
  have w: "wrapToolWithBeforeToolCallHook 0 None (sample_heap (Method this_tool))
       = Inr (1, wrapped_sample_heap (Method this_tool))"
    by (rule sample_wrap) simp
  have d: "invoke (sample_env None) (sample_heap (Method this_tool)) 0
        ''call-1'' (JStr ''raw-string'') None None w0
      = (Inr (JStr ''raw-string''),
         \<lparr>events = [ToolExecuted ''call-1'' (JStr ''raw-string'') None None], clock = 1005\<rparr>)"
    by (simp add: invoke_def sample_execute this_tool_def emit_def w0_def)
  have x: "get_prop (objs (wrapped_sample_heap (Method this_tool)) 1) ''execute''
      = Inr (Method (Hooked ''bash'' this_tool None))"
    by (simp add: wrapped_sample_heap_def get_prop_def)
  have i: "invoke (sample_env None) (wrapped_sample_heap (Method this_tool)) 1
        ''call-1'' (JStr ''raw-string'') None None w0
      = (Inl (JsError ''TypeError'' ''Cannot read properties of undefined''),
         \<lparr>events = [ToolExecuted ''call-1'' (JStr ''raw-string'') None None], clock = 1001\<rparr>)"
  proof -
    have "invoke (sample_env None) (wrapped_sample_heap (Method this_tool)) 1
        ''call-1'' (JStr ''raw-string'') None None w0
      = call (sample_env None) (Some 1) (Hooked ''bash'' this_tool None)
        ''call-1'' (JStr ''raw-string'') None None w0"
      unfolding invoke_def x by simp
    then show ?thesis
      by (simp add: runBeforeToolCallHook_def g this_tool_def emit_def w0_def)
  qed
  show ?thesis
    using g e w d i by blast
qed

text \<open>
  C2 (hook failure is non-fatal), as the code has it. With a runner installed that
  reports handlers for the event, when \<open>runBeforeToolCall\<close> throws or rejects, the
  conversion \<open>String(err)\<close> of the failure returns and the logger takes the warning,
  \<open>runBeforeToolCallHook\<close> returns \<open>Allowed\<close> with the original params; likewise a
  failure of \<open>runToolResultReceived\<close> makes \<open>runToolResultReceivedHook\<close> return
  \<open>{blocked: false}\<close> with the original result. In both cases the only further effect
  is one warning in the log, which names the tool, the call id and the error. These
  are the outcomes of a hook that returns no verdict (the last two parts). The
  wrapped call goes on: after a failed before-call hook the underlying tool is
  executed on the original params, and after a failed after-call hook the call
  resolves with the tool's result.
\<close>

theorem C2_hook_failure_non_fatal:
  fixes env :: env and tn :: string and tx :: string
  defines "toolName \<equiv> normalizeToolName env (str_or tn ''tool'')"
  defines "before_warning \<equiv> \<lambda>c. ''before_tool_call hook failed: tool='' @ toolName
                                @ toolCallId_text c @ '' error='' @ tx"
  defines "after_warning \<equiv> \<lambda>c. ''tool_result_received hook failed: tool='' @ toolName
                                @ toolCallId_text c @ '' error='' @ tx"
  assumes "getGlobalHookRunner env = Some hr"
    and "js_String env err = Inr tx"
  shows
    "(hasHooks hr ''before_tool_call'' = Inr True \<longrightarrow>
      runBeforeToolCall hr
         \<lparr>ev_toolName = toolName, ev_params = (if isPlainObject p then p else JObj [])\<rparr>
         (tool_context_of toolName ctx) = Inl err \<longrightarrow>
      (log_warn env (before_warning c) = None \<longrightarrow>
       runBeforeToolCallHook env tn p c ctx w =
        (Inr (Allowed p),
         w\<lparr>events := events w @
            [RunBeforeToolCall
               \<lparr>ev_toolName = toolName, ev_params = (if isPlainObject p then p else JObj [])\<rparr>
               (tool_context_of toolName ctx),
             LogWarn (before_warning c)]\<rparr>))
      \<and> (\<forall>this f c' sg up.
            log_warn env (before_warning (Some c')) = None \<longrightarrow>
            tool_calls (events (snd (call env this (Hooked tn (Native f) ctx) c' p sg up w)))
              = tool_calls (events w) @ [(c', p)]))
   \<and> (hasHooks hr ''tool_result_received'' = Inr True \<longrightarrow>
      runToolResultReceived hr
         \<lparr>ev_toolName = toolName, ev_params = p, ev_result = r, ev_durationMs = d\<rparr>
         (tool_context_of toolName ctx) = Inl err \<longrightarrow>
      (log_warn env (after_warning c) = None \<longrightarrow>
       runToolResultReceivedHook env tn p r c ctx d w =
        (Inr \<lparr>blocked = False, reason = None, outcome_result = r\<rparr>,
         w\<lparr>events := events w @
            [RunToolResultReceived
               \<lparr>ev_toolName = toolName, ev_params = p, ev_result = r, ev_durationMs = d\<rparr>
               (tool_context_of toolName ctx),
             LogWarn (after_warning c)]\<rparr>))
      \<and> (\<forall>this ex c' sg up q wa wb.
            log_warn env (after_warning (Some c')) = None \<longrightarrow>
            runBeforeToolCallHook env tn q (Some c') ctx wa = (Inr (Allowed p), wb) \<longrightarrow>
            call env None ex c' p sg up wb = (Inr r, w) \<longrightarrow>
            d = Some (clock w - clock wb) \<longrightarrow>
            fst (call env this (Hooked tn ex ctx) c' q sg up wa) = Inr r))
   \<and> (hasHooks hr ''before_tool_call'' = Inr True \<longrightarrow>
      runBeforeToolCall hr
         \<lparr>ev_toolName = toolName, ev_params = (if isPlainObject p then p else JObj [])\<rparr>
         (tool_context_of toolName ctx) = Inr None \<longrightarrow>
      fst (runBeforeToolCallHook env tn p c ctx w) = Inr (Allowed p))
   \<and> (hasHooks hr ''tool_result_received'' = Inr True \<longrightarrow>
      runToolResultReceived hr
         \<lparr>ev_toolName = toolName, ev_params = p, ev_result = r, ev_durationMs = d\<rparr>
         (tool_context_of toolName ctx) = Inr None \<longrightarrow>
      fst (runToolResultReceivedHook env tn p r c ctx d w)
        = Inr \<lparr>blocked = False, reason = None, outcome_result = r\<rparr>)"
proof -
  have b: "runBeforeToolCallHook env tn p c ctx w =
        (Inr (Allowed p),
         w\<lparr>events := events w @
            [RunBeforeToolCall
               \<lparr>ev_toolName = toolName, ev_params = (if isPlainObject p then p else JObj [])\<rparr>
               (tool_context_of toolName ctx),
             LogWarn (before_warning c)]\<rparr>)"
    if "hasHooks hr ''before_tool_call'' = Inr True"
      "runBeforeToolCall hr
         \<lparr>ev_toolName = toolName, ev_params = (if isPlainObject p then p else JObj [])\<rparr>
         (tool_context_of toolName ctx) = Inl err"
      "log_warn env (before_warning c) = None" for c
    using that assms(4,5) unfolding toolName_def before_warning_def
    by (simp add: runBeforeToolCallHook_def Let_def emit_def)
  have a: "runToolResultReceivedHook env tn p r c ctx d w =
        (Inr \<lparr>blocked = False, reason = None, outcome_result = r\<rparr>,
         w\<lparr>events := events w @
            [RunToolResultReceived
               \<lparr>ev_toolName = toolName, ev_params = p, ev_result = r, ev_durationMs = d\<rparr>
               (tool_context_of toolName ctx),
             LogWarn (after_warning c)]\<rparr>)"
    if "hasHooks hr ''tool_result_received'' = Inr True"
      "runToolResultReceived hr
         \<lparr>ev_toolName = toolName, ev_params = p, ev_result = r, ev_durationMs = d\<rparr>
         (tool_context_of toolName ctx) = Inl err"
      "log_warn env (after_warning c) = None" for c
    using that assms(4,5) unfolding toolName_def after_warning_def
    by (simp add: runToolResultReceivedHook_def Let_def emit_def)
  have c1: "hasHooks hr ''before_tool_call'' = Inr True \<longrightarrow>
      runBeforeToolCall hr
         \<lparr>ev_toolName = toolName, ev_params = (if isPlainObject p then p else JObj [])\<rparr>
         (tool_context_of toolName ctx) = Inl err \<longrightarrow>
      (log_warn env (before_warning c) = None \<longrightarrow>
       runBeforeToolCallHook env tn p c ctx w =
        (Inr (Allowed p),
         w\<lparr>events := events w @
            [RunBeforeToolCall
               \<lparr>ev_toolName = toolName, ev_params = (if isPlainObject p then p else JObj [])\<rparr>
               (tool_context_of toolName ctx),
             LogWarn (before_warning c)]\<rparr>))
      \<and> (\<forall>this f c' sg up.
            log_warn env (before_warning (Some c')) = None \<longrightarrow>
            tool_calls (events (snd (call env this (Hooked tn (Native f) ctx) c' p sg up w)))
              = tool_calls (events w) @ [(c', p)])"
    using b call_native_allowed[OF b] by blast
  have c2: "hasHooks hr ''tool_result_received'' = Inr True \<longrightarrow>
      runToolResultReceived hr
         \<lparr>ev_toolName = toolName, ev_params = p, ev_result = r, ev_durationMs = d\<rparr>
         (tool_context_of toolName ctx) = Inl err \<longrightarrow>
      (log_warn env (after_warning c) = None \<longrightarrow>
       runToolResultReceivedHook env tn p r c ctx d w =
        (Inr \<lparr>blocked = False, reason = None, outcome_result = r\<rparr>,
         w\<lparr>events := events w @
            [RunToolResultReceived
               \<lparr>ev_toolName = toolName, ev_params = p, ev_result = r, ev_durationMs = d\<rparr>
               (tool_context_of toolName ctx),
             LogWarn (after_warning c)]\<rparr>))
      \<and> (\<forall>this ex c' sg up q wa wb.
            log_warn env (after_warning (Some c')) = None \<longrightarrow>
            runBeforeToolCallHook env tn q (Some c') ctx wa = (Inr (Allowed p), wb) \<longrightarrow>
            call env None ex c' p sg up wb = (Inr r, w) \<longrightarrow>
            d = Some (clock w - clock wb) \<longrightarrow>
            fst (call env this (Hooked tn ex ctx) c' q sg up wa) = Inr r)"
  proof (intro impI conjI allI)
    assume h: "hasHooks hr ''tool_result_received'' = Inr True"
      "runToolResultReceived hr
         \<lparr>ev_toolName = toolName, ev_params = p, ev_result = r, ev_durationMs = d\<rparr>
         (tool_context_of toolName ctx) = Inl err"
    {
      assume l: "log_warn env (after_warning c) = None"
      show "runToolResultReceivedHook env tn p r c ctx d w =
        (Inr \<lparr>blocked = False, reason = None, outcome_result = r\<rparr>,
         w\<lparr>events := events w @
            [RunToolResultReceived
               \<lparr>ev_toolName = toolName, ev_params = p, ev_result = r, ev_durationMs = d\<rparr>
               (tool_context_of toolName ctx),
             LogWarn (after_warning c)]\<rparr>)"
        by (rule a[OF h l])
    }
    fix this ex c' sg up q wa wb
    assume "log_warn env (after_warning (Some c')) = None"
      and "runBeforeToolCallHook env tn q (Some c') ctx wa = (Inr (Allowed p), wb)"
      and "call env None ex c' p sg up wb = (Inr r, w)"
      and "d = Some (clock w - clock wb)"
    then show "fst (call env this (Hooked tn ex ctx) c' q sg up wa) = Inr r"
      using a[OF h, of "Some c'"] by simp
  qed
  have c3: "hasHooks hr ''before_tool_call'' = Inr True \<longrightarrow>
      runBeforeToolCall hr
         \<lparr>ev_toolName = toolName, ev_params = (if isPlainObject p then p else JObj [])\<rparr>
         (tool_context_of toolName ctx) = Inr None \<longrightarrow>
      fst (runBeforeToolCallHook env tn p c ctx w) = Inr (Allowed p)"
    using assms(4) unfolding toolName_def
    by (simp add: runBeforeToolCallHook_def Let_def)
  have c4: "hasHooks hr ''tool_result_received'' = Inr True \<longrightarrow>
      runToolResultReceived hr
         \<lparr>ev_toolName = toolName, ev_params = p, ev_result = r, ev_durationMs = d\<rparr>
         (tool_context_of toolName ctx) = Inr None \<longrightarrow>
      fst (runToolResultReceivedHook env tn p r c ctx d w)
        = Inr \<lparr>blocked = False, reason = None, outcome_result = r\<rparr>"
    using assms(4) unfolding toolName_def
    by (simp add: runToolResultReceivedHook_def Let_def)
  show ?thesis
    by (intro conjI c1 c2 c3 c4)
qed

text \<open>C2 on a runner whose two hook calls reject, around the echo tool.\<close>

theorem C2_witness:
  "getGlobalHookRunner (sample_env (Some (sample_runner
       (Inl (JsError ''Error'' ''plugin crashed'')) (Inl (JsError ''Error'' ''plugin crashed'')))))
     = Some (sample_runner
       (Inl (JsError ''Error'' ''plugin crashed'')) (Inl (JsError ''Error'' ''plugin crashed'')))
   \<and> js_String (sample_env (Some (sample_runner
       (Inl (JsError ''Error'' ''plugin crashed'')) (Inl (JsError ''Error'' ''plugin crashed'')))))
       (JsError ''Error'' ''plugin crashed'') = Inr ''Error: plugin crashed''
   \<and> hasHooks (sample_runner
       (Inl (JsError ''Error'' ''plugin crashed'')) (Inl (JsError ''Error'' ''plugin crashed'')))
       ''before_tool_call'' = Inr True
   \<and> hasHooks (sample_runner
       (Inl (JsError ''Error'' ''plugin crashed'')) (Inl (JsError ''Error'' ''plugin crashed'')))
       ''tool_result_received'' = Inr True
   \<and> runBeforeToolCallHook (sample_env (Some (sample_runner
       (Inl (JsError ''Error'' ''plugin crashed'')) (Inl (JsError ''Error'' ''plugin crashed'')))))
       ''bash'' (JStr ''raw-string'') (Some ''call-1'') None w0
     = (Inr (Allowed (JStr ''raw-string'')),
        \<lparr>events =
           [RunBeforeToolCall \<lparr>ev_toolName = ''exec'', ev_params = JObj []\<rparr>
              \<lparr>tc_toolName = ''exec'', tc_agentId = None, tc_sessionKey = None\<rparr>,
            LogWarn ''before_tool_call hook failed: tool=exec toolCallId=call-1 error=Error: plugin crashed''],
         clock = 1000\<rparr>)
   \<and> runToolResultReceivedHook (sample_env (Some (sample_runner
       (Inl (JsError ''Error'' ''plugin crashed'')) (Inl (JsError ''Error'' ''plugin crashed'')))))
       ''bash'' (JStr ''raw-string'') (JNum 7) None None (Some 5) w0
     = (Inr \<lparr>blocked = False, reason = None, outcome_result = JNum 7\<rparr>,
        \<lparr>events =
           [RunToolResultReceived
              \<lparr>ev_toolName = ''exec'', ev_params = JStr ''raw-string'',
                ev_result = JNum 7, ev_durationMs = Some 5\<rparr>
              \<lparr>tc_toolName = ''exec'', tc_agentId = None, tc_sessionKey = None\<rparr>,
            LogWarn ''tool_result_received hook failed: tool=exec error=Error: plugin crashed''],
         clock = 1000\<rparr>)
   \<and> tool_calls (events (snd (call (sample_env (Some (sample_runner
       (Inl (JsError ''Error'' ''plugin crashed'')) (Inl (JsError ''Error'' ''plugin crashed'')))))
       None (Hooked ''bash'' echo_tool None) ''call-1'' (JStr ''raw-string'') None None w0)))
     = [(''call-1'', JStr ''raw-string'')]
   \<and> fst (call (sample_env (Some (sample_runner
       (Inl (JsError ''Error'' ''plugin crashed'')) (Inl (JsError ''Error'' ''plugin crashed'')))))
       None (Hooked ''bash'' echo_tool None) ''call-1'' (JStr ''raw-string'') None None w0)
     = Inr (JStr ''raw-string'')"
proof -
  let ?crash = "JsError ''Error'' ''plugin crashed''"
  let ?hr = "sample_runner (Inl ?crash) (Inl ?crash)"
  let ?env = "sample_env (Some ?hr)"
  let ?p = "JStr ''raw-string''"
  let ?tc = "\<lparr>tc_toolName = ''exec'', tc_agentId = None, tc_sessionKey = None\<rparr>"
  let ?wb = "\<lparr>events =
           [RunBeforeToolCall \<lparr>ev_toolName = ''exec'', ev_params = JObj []\<rparr> ?tc,
            LogWarn ''before_tool_call hook failed: tool=exec toolCallId=call-1 error=Error: plugin crashed''],
         clock = 1000\<rparr>"
  let ?wc = "\<lparr>events =
           [RunBeforeToolCall \<lparr>ev_toolName = ''exec'', ev_params = JObj []\<rparr> ?tc,
            LogWarn ''before_tool_call hook failed: tool=exec toolCallId=call-1 error=Error: plugin crashed'',
            ToolExecuted ''call-1'' ?p None None],
         clock = 1005\<rparr>"
  have g: "getGlobalHookRunner ?env = Some ?hr"
    by (simp add: sample_env_def)
  have js: "js_String ?env ?crash = Inr ''Error: plugin crashed''"
    by (simp add: sample_env_def sample_String_def)
  have lw: "log_warn ?env message = None" for message
    by (simp add: sample_env_def)
  have hh: "hasHooks ?hr ''before_tool_call'' = Inr True"
    "hasHooks ?hr ''tool_result_received'' = Inr True"
    by (simp_all add: sample_runner_def)
  have rb: "runBeforeToolCall ?hr ev tc = Inl ?crash" for ev tc
    by (simp add: sample_runner_def)
  have ra: "runToolResultReceived ?hr ev tc = Inl ?crash" for ev tc
    by (simp add: sample_runner_def)
  note before = C2_hook_failure_non_fatal[where p = ?p and ctx = None
        and c = "Some ''call-1''" and w = w0 and tn = "''bash''",
        OF g js, THEN conjunct1, rule_format, OF hh(1) rb]
  have b: "runBeforeToolCallHook ?env ''bash'' ?p (Some ''call-1'') None w0
     = (Inr (Allowed ?p), ?wb)"
    using before[THEN conjunct1, rule_format, OF lw]
    by (simp add: sample_toolName str_or_def isPlainObject_def sample_tool_context
        toolCallId_text_def w0_def)
  have t: "tool_calls (events (snd (call ?env None (Hooked ''bash'' echo_tool None)
        ''call-1'' ?p None None w0))) = [(''call-1'', ?p)]"
    using before[THEN conjunct2, rule_format, OF lw,
        where c' = "''call-1''" and this = None and f = "\<lambda>this c p sg up. (Inr p, 5)"
          and sg = None and up = None]
    by (simp add: echo_tool_def w0_def)
  have a: "runToolResultReceivedHook ?env ''bash'' ?p (JNum 7) None None (Some 5) w0
     = (Inr \<lparr>blocked = False, reason = None, outcome_result = JNum 7\<rparr>,
        \<lparr>events =
           [RunToolResultReceived
              \<lparr>ev_toolName = ''exec'', ev_params = ?p,
                ev_result = JNum 7, ev_durationMs = Some 5\<rparr> ?tc,
            LogWarn ''tool_result_received hook failed: tool=exec error=Error: plugin crashed''],
         clock = 1000\<rparr>)"
    using C2_hook_failure_non_fatal[where p = ?p and r = "JNum 7"
        and d = "Some 5" and ctx = None and c = None and w = w0
        and tn = "''bash''", OF g js, THEN conjunct2, THEN conjunct1, rule_format, OF hh(2) ra,
        THEN conjunct1, rule_format, OF lw]
    by (simp add: sample_toolName str_or_def sample_tool_context toolCallId_text_def w0_def)
  have x: "call ?env None echo_tool ''call-1'' ?p None None ?wb = (Inr ?p, ?wc)"
    by (simp add: echo_tool_def emit_def)
  have d: "Some 5 = Some (clock ?wc - clock ?wb)"
    by simp
  have r: "fst (call ?env None (Hooked ''bash'' echo_tool None) ''call-1'' ?p None None w0) = Inr ?p"
    using C2_hook_failure_non_fatal[where p = ?p and r = ?p
        and d = "Some 5" and ctx = None and w = ?wc
        and tn = "''bash''", OF g js, THEN conjunct2, THEN conjunct1, rule_format, OF hh(2) ra,
        THEN conjunct2, rule_format, OF lw b x d] .
  show ?thesis
    using g js hh b a t r by blast
qed

text \<open>
  C2 as stated covers every failure of the hook runner. Two of them reach the caller.
  A failure of \<open>hasHooks\<close>: that call stands before the \<open>try\<close>, so both hook functions
  reject with its error, no warning is logged, and the wrapped call fails with that
  error without running the tool. And a failure of a hook call whose value cannot be
  converted to text: \<open>String(err)\<close> stands unprotected in the \<open>catch\<close>, so both hook
  functions reject with the error of the conversion, no warning is logged, and the
  wrapped call fails without running the tool.
\<close>

theorem C2_counterexample:
  "getGlobalHookRunner (sample_env (Some broken_registry_runner)) = Some broken_registry_runner
   \<and> hasHooks broken_registry_runner ''before_tool_call''
       = Inl (JsError ''Error'' ''registry unavailable'')
   \<and> runBeforeToolCallHook (sample_env (Some broken_registry_runner))
        ''bash'' (JStr ''raw-string'') (Some ''call-1'') None w0
       = (Inl (JsError ''Error'' ''registry unavailable''), w0)
   \<and> fst (runBeforeToolCallHook (sample_env (Some broken_registry_runner))
        ''bash'' (JStr ''raw-string'') (Some ''call-1'') None w0)
       \<noteq> Inr (Allowed (JStr ''raw-string''))
   \<and> hasHooks broken_registry_runner ''tool_result_received''
       = Inl (JsError ''Error'' ''registry unavailable'')
   \<and> runToolResultReceivedHook (sample_env (Some broken_registry_runner))
        ''bash'' (JStr ''raw-string'') (JNum 7) (Some ''call-1'') None (Some 5) w0
       = (Inl (JsError ''Error'' ''registry unavailable''), w0)
   \<and> call (sample_env (Some broken_registry_runner)) None (Hooked ''bash'' echo_tool None)
        ''call-1'' (JStr ''raw-string'') None None w0
       = (Inl (JsError ''Error'' ''registry unavailable''), w0)
   \<and> runBeforeToolCall (sample_runner (Inl (Thrown (JObj []))) (Inl (Thrown (JObj []))))
        \<lparr>ev_toolName = ''exec'', ev_params = JObj []\<rparr>
        \<lparr>tc_toolName = ''exec'', tc_agentId = None, tc_sessionKey = None\<rparr>
       = Inl (Thrown (JObj []))
   \<and> js_String (sample_env (Some (sample_runner (Inl (Thrown (JObj []))) (Inl (Thrown (JObj []))))))
        (Thrown (JObj []))
       = Inl (JsError ''TypeError'' ''Cannot convert object to primitive value'')
   \<and> runBeforeToolCallHook
        (sample_env (Some (sample_runner (Inl (Thrown (JObj []))) (Inl (Thrown (JObj []))))))
        ''bash'' (JStr ''raw-string'') (Some ''call-1'') None w0
       = (Inl (JsError ''TypeError'' ''Cannot convert object to primitive value''),
          \<lparr>events =
             [RunBeforeToolCall \<lparr>ev_toolName = ''exec'', ev_params = JObj []\<rparr>
                \<lparr>tc_toolName = ''exec'', tc_agentId = None, tc_sessionKey = None\<rparr>],
           clock = 1000\<rparr>)
   \<and> runToolResultReceivedHook
        (sample_env (Some (sample_runner (Inl (Thrown (JObj []))) (Inl (Thrown (JObj []))))))
        ''bash'' (JStr ''raw-string'') (JNum 7) (Some ''call-1'') None (Some 5) w0
       = (Inl (JsError ''TypeError'' ''Cannot convert object to primitive value''),
          \<lparr>events =
             [RunToolResultReceived
                \<lparr>ev_toolName = ''exec'', ev_params = JStr ''raw-string'',
                  ev_result = JNum 7, ev_durationMs = Some 5\<rparr>
                \<lparr>tc_toolName = ''exec'', tc_agentId = None, tc_sessionKey = None\<rparr>],
           clock = 1000\<rparr>)
   \<and> call (sample_env (Some (sample_runner (Inl (Thrown (JObj []))) (Inl (Thrown (JObj []))))))
        None (Hooked ''bash'' echo_tool None) ''call-1'' (JStr ''raw-string'') None None w0
       = (Inl (JsError ''TypeError'' ''Cannot convert object to primitive value''),
          \<lparr>events =
             [RunBeforeToolCall \<lparr>ev_toolName = ''exec'', ev_params = JObj []\<rparr>
                \<lparr>tc_toolName = ''exec'', tc_agentId = None, tc_sessionKey = None\<rparr>],
           clock = 1000\<rparr>)"
  by (simp add: sample_env_def broken_registry_runner_def sample_runner_def sample_String_def
      sample_normalize_def runBeforeToolCallHook_def runToolResultReceivedHook_def
      str_or_def isPlainObject_def tool_context_of_def emit_def w0_def Let_def)

text \<open>
  C3 (before-block short-circuit). When the verdict of the before-call hook has
  \<open>block\<close> set, invoking the wrapped tool fails with an \<open>Error\<close> whose message is the
  handler's \<open>blockReason\<close>, or \<open>Tool call blocked by plugin hook\<close> when the handler gave
  none (or an empty one); the only effect is the call to the hook runner, whatever the
  tool's execution capability is: it is not executed.
\<close>

theorem C3_before_block_short_circuit:
  fixes env :: env and h :: heap and tool :: nat
  defines "toolName \<equiv> normalizeToolName env (captured_name (objs h tool))"
  assumes "getGlobalHookRunner env = Some hr"
    and "hasHooks hr ''before_tool_call'' = Inr True"
    and "runBeforeToolCall hr
           \<lparr>ev_toolName = toolName, ev_params = (if isPlainObject p then p else JObj [])\<rparr>
           (tool_context_of toolName ctx) = Inr (Some v)"
    and "block v = Some True"
    and "get_prop (objs h tool) ''execute'' = Inr (Method ex)"
    and "wrapToolWithBeforeToolCallHook tool ctx h = Inr (tool', h')"
  shows "invoke env h' tool' c p sg up w =
     (Inl (new_Error
        (case blockReason v of
           None \<Rightarrow> ''Tool call blocked by plugin hook''
         | Some r \<Rightarrow> if r = [] then ''Tool call blocked by plugin hook'' else r)),
      w\<lparr>events := events w @
         [RunBeforeToolCall
            \<lparr>ev_toolName = toolName, ev_params = (if isPlainObject p then p else JObj [])\<rparr>
            (tool_context_of toolName ctx)]\<rparr>)
    \<and> tool_calls (events (snd (invoke env h' tool' c p sg up w))) = tool_calls (events w)"
proof -
  have b: "runBeforeToolCallHook env (captured_name (objs h tool)) p (Some c) ctx w =
     (Inr (Blocked (or_default (blockReason v) ''Tool call blocked by plugin hook'')),
      emit (RunBeforeToolCall
            \<lparr>ev_toolName = toolName, ev_params = (if isPlainObject p then p else JObj [])\<rparr>
            (tool_context_of toolName ctx)) w)"
    using assms(2-5) unfolding toolName_def
    by (simp add: runBeforeToolCallHook_def Let_def is_true_def str_or_captured_name)
  have "invoke env h' tool' c p sg up w =
         call env None (Hooked (captured_name (objs h tool)) ex ctx) c p sg up w"
    using invoke_wrapped[OF assms(6) _ assms(7)] by simp
  then show ?thesis
    by (simp add: b emit_def or_default_def tool_calls_append)
qed

text \<open>C3 on the echo tool, blocked with a reason.\<close>

theorem C3_witness:
  "getGlobalHookRunner (sample_env (Some (sample_runner
       (Inr (Some \<lparr>block = Some True, blockReason = Some ''writes are disabled'',
                     params = JUndefined\<rparr>)) (Inr None))))
     = Some (sample_runner
       (Inr (Some \<lparr>block = Some True, blockReason = Some ''writes are disabled'',
                     params = JUndefined\<rparr>)) (Inr None))
   \<and> get_prop (objs (sample_heap (Method echo_tool)) 0) ''execute'' = Inr (Method echo_tool)
   \<and> wrapToolWithBeforeToolCallHook 0 None (sample_heap (Method echo_tool))
       = Inr (1, wrapped_sample_heap (Method echo_tool))
   \<and> invoke (sample_env (Some (sample_runner
       (Inr (Some \<lparr>block = Some True, blockReason = Some ''writes are disabled'',
                     params = JUndefined\<rparr>)) (Inr None))))
        (wrapped_sample_heap (Method echo_tool)) 1
        ''call-1'' (JObj [(''path'', JStr ''/etc/hosts'')]) None None w0
     = (Inl (JsError ''Error'' ''writes are disabled''),
        \<lparr>events =
           [RunBeforeToolCall
              \<lparr>ev_toolName = ''exec'', ev_params = JObj [(''path'', JStr ''/etc/hosts'')]\<rparr>
              \<lparr>tc_toolName = ''exec'', tc_agentId = None, tc_sessionKey = None\<rparr>],
         clock = 1000\<rparr>)
   \<and> tool_calls (events (snd (invoke (sample_env (Some (sample_runner
       (Inr (Some \<lparr>block = Some True, blockReason = Some ''writes are disabled'',
                     params = JUndefined\<rparr>)) (Inr None))))
        (wrapped_sample_heap (Method echo_tool)) 1
        ''call-1'' (JObj [(''path'', JStr ''/etc/hosts'')]) None None w0))) = []"
proof -
  let ?v = "\<lparr>block = Some True, blockReason = Some ''writes are disabled'', params = JUndefined\<rparr>"
  let ?hr = "sample_runner (Inr (Some ?v)) (Inr None)"
  let ?env = "sample_env (Some ?hr)"
  let ?h = "sample_heap (Method echo_tool)"
  let ?h' = "wrapped_sample_heap (Method echo_tool)"
  let ?p = "JObj [(''path'', JStr ''/etc/hosts'')]"
  have g: "getGlobalHookRunner ?env = Some ?hr"
    by (simp add: sample_env_def)
  have hh: "hasHooks ?hr ''before_tool_call'' = Inr True"
    by (simp add: sample_runner_def)
  have rb: "runBeforeToolCall ?hr
       \<lparr>ev_toolName = normalizeToolName ?env (captured_name (objs ?h 0)),
         ev_params = (if isPlainObject ?p then ?p else JObj [])\<rparr>
       (tool_context_of (normalizeToolName ?env (captured_name (objs ?h 0))) None)
     = Inr (Some ?v)"
    by (simp add: sample_runner_def)
  have bl: "block ?v = Some True"
    by simp
  have e: "get_prop (objs ?h 0) ''execute'' = Inr (Method echo_tool)"
    by (rule sample_execute)
  have wr: "wrapToolWithBeforeToolCallHook 0 None ?h = Inr (1, ?h')"
    by (rule sample_wrap) simp
  note inst = C3_before_block_short_circuit[OF g hh rb bl e wr, of "''call-1''" None None w0,
      unfolded sample_captured_name sample_toolName]
  have c1: "invoke ?env ?h' 1
        ''call-1'' ?p None None w0
     = (Inl (JsError ''Error'' ''writes are disabled''),
        \<lparr>events =
           [RunBeforeToolCall
              \<lparr>ev_toolName = ''exec'', ev_params = ?p\<rparr>
              \<lparr>tc_toolName = ''exec'', tc_agentId = None, tc_sessionKey = None\<rparr>],
         clock = 1000\<rparr>)"
    using inst[THEN conjunct1]
    by (simp add: isPlainObject_def sample_tool_context new_Error_def w0_def)
  have c2: "tool_calls (events (snd (invoke ?env ?h' 1
        ''call-1'' ?p None None w0))) = []"
    using inst[THEN conjunct2] by (simp add: w0_def)
  show ?thesis
    using g e wr c1 c2 by blast
qed

text \<open>
  C4 (params merge). When the verdict of the before-call hook does not block and its
  \<open>params\<close> are a plain mapping: if the original params are a plain mapping too,
  \<open>runBeforeToolCallHook\<close> returns \<open>Allowed\<close> with a mapping whose keys are the original
  keys and the replacement keys, each key bound to the replacement's value when the
  replacement has it and to the original value otherwise, and that mapping is what the
  executed tool receives; if the original params are not a plain mapping, the
  replacement is returned, and received by the tool, as it is. Objects are
  well-formed: their keys are distinct. (The order in which JavaScript enumerates
  integer-like keys is not modelled; the statement is about keys and their values.)
\<close>

theorem C4_params_merge:
  fixes env :: env and h :: heap and tool :: nat
  defines "tn \<equiv> captured_name (objs h tool)"
  defines "toolName \<equiv> normalizeToolName env tn"
  assumes "getGlobalHookRunner env = Some hr"
    and "hasHooks hr ''before_tool_call'' = Inr True"
    and "runBeforeToolCall hr
           \<lparr>ev_toolName = toolName, ev_params = (if isPlainObject p then p else JObj [])\<rparr>
           (tool_context_of toolName ctx) = Inr (Some v)"
    and "block v \<noteq> Some True"
    and "params v = JObj hp"
    and "distinct (map fst hp)"
    and "get_prop (objs h tool) ''execute'' = Inr (Method (Native f))"
    and "wrapToolWithBeforeToolCallHook tool ctx h = Inr (tool', h')"
  shows
    "(\<forall>op. p = JObj op \<longrightarrow> distinct (map fst op) \<longrightarrow>
        (\<exists>m. runBeforeToolCallHook env tn p c ctx w =
                (Inr (Allowed (JObj m)),
                 w\<lparr>events := events w @
                    [RunBeforeToolCall \<lparr>ev_toolName = toolName, ev_params = p\<rparr>
                       (tool_context_of toolName ctx)]\<rparr>)
           \<and> distinct (map fst m)
           \<and> set (map fst m) = set (map fst op) \<union> set (map fst hp)
           \<and> (\<forall>k. map_of m k = (case map_of hp k of Some x \<Rightarrow> Some x | None \<Rightarrow> map_of op k))
           \<and> tool_calls (events (snd (invoke env h' tool' c' p sg up w)))
               = tool_calls (events w) @ [(c', JObj m)]))
   \<and> (\<not> isPlainObject p \<longrightarrow>
        runBeforeToolCallHook env tn p c ctx w =
          (Inr (Allowed (JObj hp)),
           w\<lparr>events := events w @
              [RunBeforeToolCall \<lparr>ev_toolName = toolName, ev_params = JObj []\<rparr>
                 (tool_context_of toolName ctx)]\<rparr>)
        \<and> tool_calls (events (snd (invoke env h' tool' c' p sg up w)))
            = tool_calls (events w) @ [(c', JObj hp)])"
proof -
  have inv: "invoke env h' tool' c' p sg up w = call env None (Hooked tn (Native f) ctx) c' p sg up w"
    unfolding tn_def using invoke_wrapped[OF assms(9) _ assms(10)] by simp
  have nb: "\<not> is_true (block v)"
    using assms(6) by (cases "block v") (auto simp: is_true_def)
  have tn: "str_or tn ''tool'' = tn"
    by (simp add: tn_def str_or_captured_name)
  have plain: "isPlainObject (JObj hp)"
    by (simp add: isPlainObject_def)
  have run: "\<And>c. runBeforeToolCallHook env tn p c ctx w =
      (Inr (Allowed (if isPlainObject p then spread2 p (JObj hp) else JObj hp)),
       emit (RunBeforeToolCall
              \<lparr>ev_toolName = toolName, ev_params = (if isPlainObject p then p else JObj [])\<rparr>
              (tool_context_of toolName ctx)) w)"
    using assms(3-5) nb plain assms(7) unfolding toolName_def
    by (simp add: runBeforeToolCallHook_def Let_def tn)
  have merge: "\<And>op. p = JObj op \<Longrightarrow> distinct (map fst op) \<Longrightarrow>
      (let m = spread_into hp (spread_into op []) in
         spread2 p (JObj hp) = JObj m \<and> distinct (map fst m)
         \<and> set (map fst m) = set (map fst op) \<union> set (map fst hp)
         \<and> (\<forall>k. map_of m k = (case map_of hp k of Some x \<Rightarrow> Some x | None \<Rightarrow> map_of op k)))"
    using assms(8)
    by (auto simp: Let_def spread2_def distinct_spread_into keys_spread_into map_of_spread_into
        split: option.splits)
  show ?thesis
  proof (intro conjI allI impI)
    fix op assume p: "p = JObj op" and d: "distinct (map fst op)"
    let ?m = "spread_into hp (spread_into op [])"
    have pl: "isPlainObject p" using p by (simp add: isPlainObject_def)
    have m: "spread2 p (JObj hp) = JObj ?m" "distinct (map fst ?m)"
      "set (map fst ?m) = set (map fst op) \<union> set (map fst hp)"
      "\<forall>k. map_of ?m k = (case map_of hp k of Some x \<Rightarrow> Some x | None \<Rightarrow> map_of op k)"
      using merge[OF p d] by (simp_all add: Let_def)
    have r1: "runBeforeToolCallHook env tn p c ctx w =
                (Inr (Allowed (JObj ?m)),
                 w\<lparr>events := events w @
                    [RunBeforeToolCall \<lparr>ev_toolName = toolName, ev_params = p\<rparr>
                       (tool_context_of toolName ctx)]\<rparr>)"
      using run[of c] pl m(1) by (simp add: emit_def)
    have r2: "tool_calls (events (snd (invoke env h' tool' c' p sg up w)))
               = tool_calls (events w) @ [(c', JObj ?m)]"
      unfolding inv using run[of "Some c'"] pl m(1)
      by (intro call_native_allowed) simp
    show "\<exists>m. runBeforeToolCallHook env tn p c ctx w =
                (Inr (Allowed (JObj m)),
                 w\<lparr>events := events w @
                    [RunBeforeToolCall \<lparr>ev_toolName = toolName, ev_params = p\<rparr>
                       (tool_context_of toolName ctx)]\<rparr>)
           \<and> distinct (map fst m)
           \<and> set (map fst m) = set (map fst op) \<union> set (map fst hp)
           \<and> (\<forall>k. map_of m k = (case map_of hp k of Some x \<Rightarrow> Some x | None \<Rightarrow> map_of op k))
           \<and> tool_calls (events (snd (invoke env h' tool' c' p sg up w)))
               = tool_calls (events w) @ [(c', JObj m)]"
      using r1 r2 m(2,3,4) by blast
  next
    assume np: "\<not> isPlainObject p"
    show "runBeforeToolCallHook env tn p c ctx w =
          (Inr (Allowed (JObj hp)),
           w\<lparr>events := events w @
              [RunBeforeToolCall \<lparr>ev_toolName = toolName, ev_params = JObj []\<rparr>
                 (tool_context_of toolName ctx)]\<rparr>)"
      using run[of c] np by (simp add: emit_def)
  next
    assume np: "\<not> isPlainObject p"
    show "tool_calls (events (snd (invoke env h' tool' c' p sg up w)))
            = tool_calls (events w) @ [(c', JObj hp)]"
      unfolding inv using run[of "Some c'"] np
      by (intro call_native_allowed) simp
  qed
qed

text \<open>C4 on the original \<open>{a: 1, b: 2}\<close> and the replacement \<open>{b: 3, c: 4}\<close>.\<close>

theorem C4_witness:
  "getGlobalHookRunner (sample_env (Some (sample_runner
       (Inr (Some \<lparr>block = None, blockReason = None,
                     params = JObj [(''b'', JNum 3), (''c'', JNum 4)]\<rparr>)) (Inr None))))
     = Some (sample_runner
       (Inr (Some \<lparr>block = None, blockReason = None,
                     params = JObj [(''b'', JNum 3), (''c'', JNum 4)]\<rparr>)) (Inr None))
   \<and> get_prop (objs (sample_heap (Method echo_tool)) 0) ''execute'' = Inr (Method echo_tool)
   \<and> wrapToolWithBeforeToolCallHook 0 None (sample_heap (Method echo_tool))
       = Inr (1, wrapped_sample_heap (Method echo_tool))
   \<and> runBeforeToolCallHook (sample_env (Some (sample_runner
       (Inr (Some \<lparr>block = None, blockReason = None,
                     params = JObj [(''b'', JNum 3), (''c'', JNum 4)]\<rparr>)) (Inr None))))
        ''bash'' (JObj [(''a'', JNum 1), (''b'', JNum 2)]) (Some ''call-1'') None w0
     = (Inr (Allowed (JObj [(''a'', JNum 1), (''b'', JNum 3), (''c'', JNum 4)])),
        \<lparr>events =
           [RunBeforeToolCall
              \<lparr>ev_toolName = ''exec'', ev_params = JObj [(''a'', JNum 1), (''b'', JNum 2)]\<rparr>
              \<lparr>tc_toolName = ''exec'', tc_agentId = None, tc_sessionKey = None\<rparr>],
         clock = 1000\<rparr>)
   \<and> tool_calls (events (snd (invoke (sample_env (Some (sample_runner
       (Inr (Some \<lparr>block = None, blockReason = None,
                     params = JObj [(''b'', JNum 3), (''c'', JNum 4)]\<rparr>)) (Inr None))))
        (wrapped_sample_heap (Method echo_tool)) 1
        ''call-1'' (JObj [(''a'', JNum 1), (''b'', JNum 2)]) None None w0)))
     = [(''call-1'', JObj [(''a'', JNum 1), (''b'', JNum 3), (''c'', JNum 4)])]"
proof -
  let ?hp = "[(''b'', JNum 3), (''c'', JNum 4)]"
  let ?op = "[(''a'', JNum 1), (''b'', JNum 2)]"
  let ?v = "\<lparr>block = None, blockReason = None, params = JObj ?hp\<rparr>"
  let ?hr = "sample_runner (Inr (Some ?v)) (Inr None)"
  let ?env = "sample_env (Some ?hr)"
  let ?h = "sample_heap (Method echo_tool)"
  let ?h' = "wrapped_sample_heap (Method echo_tool)"
  have g: "getGlobalHookRunner ?env = Some ?hr"
    by (simp add: sample_env_def)
  have hh: "hasHooks ?hr ''before_tool_call'' = Inr True"
    by (simp add: sample_runner_def)
  have rb: "runBeforeToolCall ?hr
       \<lparr>ev_toolName = normalizeToolName ?env (captured_name (objs ?h 0)),
         ev_params = (if isPlainObject (JObj ?op) then JObj ?op else JObj [])\<rparr>
       (tool_context_of (normalizeToolName ?env (captured_name (objs ?h 0))) None)
     = Inr (Some ?v)"
    by (simp add: sample_runner_def)
  have nb: "block ?v \<noteq> Some True" and pv: "params ?v = JObj ?hp"
    and dh: "distinct (map fst ?hp)" and dop: "distinct (map fst ?op)"
    by simp_all
  have e: "get_prop (objs ?h 0) ''execute'' = Inr (Method (Native (\<lambda>this c p sg up. (Inr p, 5))))"
    using sample_execute[of "Method echo_tool"] by (simp add: echo_tool_def)
  have wr: "wrapToolWithBeforeToolCallHook 0 None ?h = Inr (1, ?h')"
    by (rule sample_wrap) simp
  have tn: "captured_name (objs ?h 0) = ''bash''"
    by (rule sample_captured_name)
  note inst = C4_params_merge[OF g hh rb nb pv dh e wr,
      where c = "Some ''call-1''" and c' = "''call-1''" and w = w0 and sg = None and up = None,
      THEN conjunct1, rule_format, OF refl dop, unfolded tn]
  then obtain m where
    r: "runBeforeToolCallHook ?env ''bash'' (JObj ?op) (Some ''call-1'') None w0 =
          (Inr (Allowed (JObj m)),
           w0\<lparr>events := events w0 @
              [RunBeforeToolCall \<lparr>ev_toolName = normalizeToolName ?env ''bash'', ev_params = JObj ?op\<rparr>
                 (tool_context_of (normalizeToolName ?env ''bash'') None)]\<rparr>)"
    and k: "\<forall>k. map_of m k = (case map_of ?hp k of Some x \<Rightarrow> Some x | None \<Rightarrow> map_of ?op k)"
    and ks: "set (map fst m) = set (map fst ?op) \<union> set (map fst ?hp)"
    and t: "tool_calls (events (snd (invoke ?env ?h' 1 ''call-1'' (JObj ?op) None None w0)))
            = tool_calls (events w0) @ [(''call-1'', JObj m)]"
    by blast
  have ev: "runBeforeToolCallHook ?env ''bash'' (JObj ?op) (Some ''call-1'') None w0
     = (Inr (Allowed (JObj [(''a'', JNum 1), (''b'', JNum 3), (''c'', JNum 4)])),
        \<lparr>events =
           [RunBeforeToolCall
              \<lparr>ev_toolName = ''exec'', ev_params = JObj ?op\<rparr>
              \<lparr>tc_toolName = ''exec'', tc_agentId = None, tc_sessionKey = None\<rparr>],
         clock = 1000\<rparr>)"
    by (simp add: runBeforeToolCallHook_def sample_env_def sample_runner_def sample_normalize_def
        str_or_def isPlainObject_def tool_context_of_def is_true_def spread2_def emit_def
        w0_def Let_def)
  have m: "m = [(''a'', JNum 1), (''b'', JNum 3), (''c'', JNum 4)]"
    using r ev by simp
  have c2: "tool_calls (events (snd (invoke ?env ?h' 1 ''call-1'' (JObj ?op) None None w0)))
     = [(''call-1'', JObj [(''a'', JNum 1), (''b'', JNum 3), (''c'', JNum 4)])]"
    using t m by (simp add: w0_def)
  show ?thesis
    using g e wr ev c2 by (simp add: echo_tool_def)
qed

text \<open>
  C5 (non-mapping params untouched). When handlers are registered for
  \<open>before_tool_call\<close> and the original params are not a plain mapping, the payload
  handed to the hook runner carries the empty mapping as its params; and when the
  runner's answer is no verdict, or a verdict that does not block and has no plain
  mapping as \<open>params\<close>, \<open>runBeforeToolCallHook\<close> returns \<open>Allowed\<close> with the original
  params, which is also what the executed tool receives.
\<close>

theorem C5_non_mapping_params_untouched:
  fixes env :: env and h :: heap and tool :: nat
  defines "tn \<equiv> captured_name (objs h tool)"
  defines "toolName \<equiv> normalizeToolName env tn"
  assumes "getGlobalHookRunner env = Some hr"
    and "hasHooks hr ''before_tool_call'' = Inr True"
    and "\<not> isPlainObject p"
    and "get_prop (objs h tool) ''execute'' = Inr (Method (Native f))"
    and "wrapToolWithBeforeToolCallHook tool ctx h = Inr (tool', h')"
  shows
    "before_payloads (events (snd (runBeforeToolCallHook env tn p c ctx w)))
       = before_payloads (events w) @ [\<lparr>ev_toolName = toolName, ev_params = JObj []\<rparr>]
   \<and> (\<forall>hookResult.
        runBeforeToolCall hr \<lparr>ev_toolName = toolName, ev_params = JObj []\<rparr>
          (tool_context_of toolName ctx) = Inr hookResult \<longrightarrow>
        (hookResult = None \<or>
         (\<exists>v. hookResult = Some v \<and> block v \<noteq> Some True \<and> \<not> isPlainObject (params v))) \<longrightarrow>
        runBeforeToolCallHook env tn p c ctx w =
          (Inr (Allowed p),
           w\<lparr>events := events w @
              [RunBeforeToolCall \<lparr>ev_toolName = toolName, ev_params = JObj []\<rparr>
                 (tool_context_of toolName ctx)]\<rparr>)
        \<and> tool_calls (events (snd (invoke env h' tool' c' p sg up w)))
            = tool_calls (events w) @ [(c', p)])"
proof -
  have inv: "invoke env h' tool' c' p sg up w = call env None (Hooked tn (Native f) ctx) c' p sg up w"
    unfolding tn_def using invoke_wrapped[OF assms(6) _ assms(7)] by simp
  have tn: "str_or tn ''tool'' = tn"
    by (simp add: tn_def str_or_captured_name)
  have payload: "before_payloads (events (snd (runBeforeToolCallHook env tn p c ctx w)))
       = before_payloads (events w) @ [\<lparr>ev_toolName = toolName, ev_params = JObj []\<rparr>]"
    using assms(3-5) unfolding toolName_def
    by (simp add: runBeforeToolCallHook_def Let_def tn emit_def before_payloads_append
        split: sum.splits option.splits)
  have run: "runBeforeToolCallHook env tn p c ctx w =
          (Inr (Allowed p),
           w\<lparr>events := events w @
              [RunBeforeToolCall \<lparr>ev_toolName = toolName, ev_params = JObj []\<rparr>
                 (tool_context_of toolName ctx)]\<rparr>)"
    if "runBeforeToolCall hr \<lparr>ev_toolName = toolName, ev_params = JObj []\<rparr>
          (tool_context_of toolName ctx) = Inr hookResult"
      and "hookResult = None \<or>
         (\<exists>v. hookResult = Some v \<and> block v \<noteq> Some True \<and> \<not> isPlainObject (params v))"
    for hookResult c
  proof -
    have "\<not> is_true b" if "b \<noteq> Some True" for b
      using that by (cases b) (auto simp: is_true_def)
    then show ?thesis
      using that assms(3-5) unfolding toolName_def
      by (auto simp: runBeforeToolCallHook_def Let_def tn emit_def)
  qed
  show ?thesis
  proof (intro conjI allI impI)
    show "before_payloads (events (snd (runBeforeToolCallHook env tn p c ctx w)))
       = before_payloads (events w) @ [\<lparr>ev_toolName = toolName, ev_params = JObj []\<rparr>]"
      by (rule payload)
  next
    fix hookResult
    assume a: "runBeforeToolCall hr \<lparr>ev_toolName = toolName, ev_params = JObj []\<rparr>
          (tool_context_of toolName ctx) = Inr hookResult"
      and b: "hookResult = None \<or>
         (\<exists>v. hookResult = Some v \<and> block v \<noteq> Some True \<and> \<not> isPlainObject (params v))"
    show "runBeforeToolCallHook env tn p c ctx w =
          (Inr (Allowed p),
           w\<lparr>events := events w @
              [RunBeforeToolCall \<lparr>ev_toolName = toolName, ev_params = JObj []\<rparr>
                 (tool_context_of toolName ctx)]\<rparr>)"
      by (rule run[OF a b])
    show "tool_calls (events (snd (invoke env h' tool' c' p sg up w)))
            = tool_calls (events w) @ [(c', p)]"
      unfolding inv by (rule call_native_allowed[OF run[OF a b]])
  qed
qed

text \<open>C5 on the params \<open>"raw-string"\<close> and a hook that returns nothing.\<close>

theorem C5_witness:
  "getGlobalHookRunner (sample_env (Some (sample_runner (Inr None) (Inr None))))
     = Some (sample_runner (Inr None) (Inr None))
   \<and> hasHooks (sample_runner (Inr None) (Inr None)) ''before_tool_call'' = Inr True
   \<and> \<not> isPlainObject (JStr ''raw-string'')
   \<and> get_prop (objs (sample_heap (Method echo_tool)) 0) ''execute'' = Inr (Method echo_tool)
   \<and> wrapToolWithBeforeToolCallHook 0 None (sample_heap (Method echo_tool))
       = Inr (1, wrapped_sample_heap (Method echo_tool))
   \<and> before_payloads (events (snd (runBeforeToolCallHook
        (sample_env (Some (sample_runner (Inr None) (Inr None))))
        ''bash'' (JStr ''raw-string'') (Some ''call-1'') None w0)))
     = [\<lparr>ev_toolName = ''exec'', ev_params = JObj []\<rparr>]
   \<and> runBeforeToolCallHook (sample_env (Some (sample_runner (Inr None) (Inr None))))
        ''bash'' (JStr ''raw-string'') (Some ''call-1'') None w0
     = (Inr (Allowed (JStr ''raw-string'')),
        \<lparr>events =
           [RunBeforeToolCall \<lparr>ev_toolName = ''exec'', ev_params = JObj []\<rparr>
              \<lparr>tc_toolName = ''exec'', tc_agentId = None, tc_sessionKey = None\<rparr>],
         clock = 1000\<rparr>)
   \<and> tool_calls (events (snd (invoke (sample_env (Some (sample_runner (Inr None) (Inr None))))
        (wrapped_sample_heap (Method echo_tool)) 1
        ''call-1'' (JStr ''raw-string'') None None w0)))
     = [(''call-1'', JStr ''raw-string'')]"
proof -
  let ?hr = "sample_runner (Inr None) (Inr None)"
  let ?env = "sample_env (Some ?hr)"
  let ?h = "sample_heap (Method echo_tool)"
  let ?h' = "wrapped_sample_heap (Method echo_tool)"
  let ?p = "JStr ''raw-string''"
  have g: "getGlobalHookRunner ?env = Some ?hr"
    by (simp add: sample_env_def)
  have hh: "hasHooks ?hr ''before_tool_call'' = Inr True"
    by (simp add: sample_runner_def)
  have np: "\<not> isPlainObject ?p"
    by (simp add: isPlainObject_def)
  have e: "get_prop (objs ?h 0) ''execute'' = Inr (Method (Native (\<lambda>this c p sg up. (Inr p, 5))))"
    using sample_execute[of "Method echo_tool"] by (simp add: echo_tool_def)
  have wr: "wrapToolWithBeforeToolCallHook 0 None ?h = Inr (1, ?h')"
    by (rule sample_wrap) simp
  have tn: "captured_name (objs ?h 0) = ''bash''"
    by (rule sample_captured_name)
  have nm: "normalizeToolName ?env ''bash'' = ''exec''"
    by (simp add: sample_env_def sample_normalize_def)
  have tc: "tool_context_of ''exec'' None
     = \<lparr>tc_toolName = ''exec'', tc_agentId = None, tc_sessionKey = None\<rparr>"
    by (simp add: tool_context_of_def)
  have rb: "runBeforeToolCall ?hr \<lparr>ev_toolName = ''exec'', ev_params = JObj []\<rparr>
      (tool_context_of ''exec'' None) = Inr None"
    by (simp add: sample_runner_def)
  note inst = C5_non_mapping_params_untouched[OF g hh np e wr,
      where c = "Some ''call-1''" and c' = "''call-1''" and w = w0 and sg = None and up = None,
      unfolded tn nm]
  have c1: "before_payloads (events (snd (runBeforeToolCallHook ?env
        ''bash'' ?p (Some ''call-1'') None w0)))
     = [\<lparr>ev_toolName = ''exec'', ev_params = JObj []\<rparr>]"
    using inst[THEN conjunct1] by (simp add: w0_def)
  note rest = inst[THEN conjunct2, rule_format, OF rb disjI1, OF refl]
  have c2: "runBeforeToolCallHook ?env ''bash'' ?p (Some ''call-1'') None w0
     = (Inr (Allowed ?p),
        \<lparr>events =
           [RunBeforeToolCall \<lparr>ev_toolName = ''exec'', ev_params = JObj []\<rparr>
              \<lparr>tc_toolName = ''exec'', tc_agentId = None, tc_sessionKey = None\<rparr>],
         clock = 1000\<rparr>)"
    using rest[THEN conjunct1] by (simp add: tc w0_def)
  have c3: "tool_calls (events (snd (invoke ?env ?h' 1 ''call-1'' ?p None None w0)))
     = [(''call-1'', ?p)]"
    using rest[THEN conjunct2] by (simp add: w0_def)
  show ?thesis
    using g hh np e wr c1 c2 c3 by (simp add: echo_tool_def)
qed

text \<open>
  C6 (after-block discards the result). When the verdict of the after-call hook has
  \<open>block\<close> set, \<open>runToolResultReceivedHook\<close> returns \<open>blocked: true\<close> together with the
  original result and the handler's \<open>blockReason\<close>, or
  \<open>Tool result blocked by plugin hook\<close> when the handler gave none (or an empty one);
  and a wrapped call whose before-call hook allowed it and whose underlying tool
  resolved fails with an \<open>Error\<close> carrying that reason, so the tool's result is not
  returned.
\<close>

theorem C6_after_block_discards_result:
  fixes env :: env and h :: heap and tool :: nat and v :: after_result
  defines "tn \<equiv> captured_name (objs h tool)"
  defines "toolName \<equiv> normalizeToolName env tn"
  defines "msg \<equiv> (case blockReason v of
                     None \<Rightarrow> ''Tool result blocked by plugin hook''
                   | Some s \<Rightarrow> if s = [] then ''Tool result blocked by plugin hook'' else s)"
  assumes "getGlobalHookRunner env = Some hr"
    and "hasHooks hr ''tool_result_received'' = Inr True"
    and "runToolResultReceived hr
           \<lparr>ev_toolName = toolName, ev_params = p', ev_result = r, ev_durationMs = d\<rparr>
           (tool_context_of toolName ctx) = Inr (Some v)"
    and "block v = Some True"
    and "get_prop (objs h tool) ''execute'' = Inr (Method ex)"
    and "wrapToolWithBeforeToolCallHook tool ctx h = Inr (tool', h')"
  shows
    "runToolResultReceivedHook env tn p' r c ctx d w2 =
       (Inr \<lparr>blocked = True, reason = Some msg, outcome_result = r\<rparr>,
        w2\<lparr>events := events w2 @
           [RunToolResultReceived
              \<lparr>ev_toolName = toolName, ev_params = p', ev_result = r, ev_durationMs = d\<rparr>
              (tool_context_of toolName ctx)]\<rparr>)
   \<and> (runBeforeToolCallHook env tn p (Some c') ctx w = (Inr (Allowed p'), w1) \<longrightarrow>
      call env None ex c' p' sg up w1 = (Inr r, w2) \<longrightarrow>
      d = Some (clock w2 - clock w1) \<longrightarrow>
      invoke env h' tool' c' p sg up w =
        (Inl (new_Error msg),
         w2\<lparr>events := events w2 @
            [RunToolResultReceived
               \<lparr>ev_toolName = toolName, ev_params = p', ev_result = r, ev_durationMs = d\<rparr>
               (tool_context_of toolName ctx)]\<rparr>))"
proof -
  have inv: "invoke env h' tool' c' p sg up w = call env None (Hooked tn ex ctx) c' p sg up w"
    unfolding tn_def using invoke_wrapped[OF assms(8) _ assms(9)] by simp
  have tn: "str_or tn ''tool'' = tn"
    by (simp add: tn_def str_or_captured_name)
  have run: "\<And>c. runToolResultReceivedHook env tn p' r c ctx d w2 =
       (Inr \<lparr>blocked = True, reason = Some msg, outcome_result = r\<rparr>,
        w2\<lparr>events := events w2 @
           [RunToolResultReceived
              \<lparr>ev_toolName = toolName, ev_params = p', ev_result = r, ev_durationMs = d\<rparr>
              (tool_context_of toolName ctx)]\<rparr>)"
    using assms(4-7) unfolding toolName_def msg_def
    by (simp add: runToolResultReceivedHook_def Let_def tn emit_def is_true_def or_default_def)
  show ?thesis
  proof (intro conjI impI)
    show "runToolResultReceivedHook env tn p' r c ctx d w2 =
       (Inr \<lparr>blocked = True, reason = Some msg, outcome_result = r\<rparr>,
        w2\<lparr>events := events w2 @
           [RunToolResultReceived
              \<lparr>ev_toolName = toolName, ev_params = p', ev_result = r, ev_durationMs = d\<rparr>
              (tool_context_of toolName ctx)]\<rparr>)"
      by (rule run)
  next
    assume "runBeforeToolCallHook env tn p (Some c') ctx w = (Inr (Allowed p'), w1)"
      and "call env None ex c' p' sg up w1 = (Inr r, w2)"
      and "d = Some (clock w2 - clock w1)"
    then show "invoke env h' tool' c' p sg up w =
        (Inl (new_Error msg),
         w2\<lparr>events := events w2 @
            [RunToolResultReceived
               \<lparr>ev_toolName = toolName, ev_params = p', ev_result = r, ev_durationMs = d\<rparr>
               (tool_context_of toolName ctx)]\<rparr>)"
      using run[of "Some c'"] by (simp add: inv)
  qed
qed

text \<open>C6 on the echo tool and a handler that blocks the result without a reason.\<close>

theorem C6_witness:
  "getGlobalHookRunner (sample_env (Some (sample_runner (Inr None)
       (Inr (Some \<lparr>block = Some True, blockReason = None, result = JUndefined\<rparr>)))))
     = Some (sample_runner (Inr None)
       (Inr (Some \<lparr>block = Some True, blockReason = None, result = JUndefined\<rparr>)))
   \<and> hasHooks (sample_runner (Inr None)
       (Inr (Some \<lparr>block = Some True, blockReason = None, result = JUndefined\<rparr>)))
       ''tool_result_received'' = Inr True
   \<and> get_prop (objs (sample_heap (Method echo_tool)) 0) ''execute'' = Inr (Method echo_tool)
   \<and> wrapToolWithBeforeToolCallHook 0 None (sample_heap (Method echo_tool))
       = Inr (1, wrapped_sample_heap (Method echo_tool))
   \<and> call (sample_env (Some (sample_runner (Inr None)
       (Inr (Some \<lparr>block = Some True, blockReason = None, result = JUndefined\<rparr>)))))
       None echo_tool ''call-1'' (JObj [(''path'', JStr ''/etc/hosts'')]) None None
       \<lparr>events =
          [RunBeforeToolCall
             \<lparr>ev_toolName = ''exec'', ev_params = JObj [(''path'', JStr ''/etc/hosts'')]\<rparr>
             \<lparr>tc_toolName = ''exec'', tc_agentId = None, tc_sessionKey = None\<rparr>],
        clock = 1000\<rparr>
     = (Inr (JObj [(''path'', JStr ''/etc/hosts'')]),
        \<lparr>events =
          [RunBeforeToolCall
             \<lparr>ev_toolName = ''exec'', ev_params = JObj [(''path'', JStr ''/etc/hosts'')]\<rparr>
             \<lparr>tc_toolName = ''exec'', tc_agentId = None, tc_sessionKey = None\<rparr>,
           ToolExecuted ''call-1'' (JObj [(''path'', JStr ''/etc/hosts'')]) None None],
        clock = 1005\<rparr>)
   \<and> fst (runToolResultReceivedHook (sample_env (Some (sample_runner (Inr None)
       (Inr (Some \<lparr>block = Some True, blockReason = None, result = JUndefined\<rparr>)))))
       ''bash'' (JObj [(''path'', JStr ''/etc/hosts'')]) (JObj [(''path'', JStr ''/etc/hosts'')])
       (Some ''call-1'') None (Some 5)
       \<lparr>events =
          [RunBeforeToolCall
             \<lparr>ev_toolName = ''exec'', ev_params = JObj [(''path'', JStr ''/etc/hosts'')]\<rparr>
             \<lparr>tc_toolName = ''exec'', tc_agentId = None, tc_sessionKey = None\<rparr>,
           ToolExecuted ''call-1'' (JObj [(''path'', JStr ''/etc/hosts'')]) None None],
        clock = 1005\<rparr>)
     = Inr \<lparr>blocked = True, reason = Some ''Tool result blocked by plugin hook'',
            outcome_result = JObj [(''path'', JStr ''/etc/hosts'')]\<rparr>
   \<and> invoke (sample_env (Some (sample_runner (Inr None)
       (Inr (Some \<lparr>block = Some True, blockReason = None, result = JUndefined\<rparr>)))))
       (wrapped_sample_heap (Method echo_tool)) 1
       ''call-1'' (JObj [(''path'', JStr ''/etc/hosts'')]) None None w0
     = (Inl (JsError ''Error'' ''Tool result blocked by plugin hook''),
        \<lparr>events =
          [RunBeforeToolCall
             \<lparr>ev_toolName = ''exec'', ev_params = JObj [(''path'', JStr ''/etc/hosts'')]\<rparr>
             \<lparr>tc_toolName = ''exec'', tc_agentId = None, tc_sessionKey = None\<rparr>,
           ToolExecuted ''call-1'' (JObj [(''path'', JStr ''/etc/hosts'')]) None None,
           RunToolResultReceived
             \<lparr>ev_toolName = ''exec'', ev_params = JObj [(''path'', JStr ''/etc/hosts'')],
               ev_result = JObj [(''path'', JStr ''/etc/hosts'')], ev_durationMs = Some 5\<rparr>
             \<lparr>tc_toolName = ''exec'', tc_agentId = None, tc_sessionKey = None\<rparr>],
        clock = 1005\<rparr>)"
proof -
  let ?v = "\<lparr>block = Some True, blockReason = None, result = JUndefined\<rparr>"
  let ?hr = "sample_runner (Inr None) (Inr (Some ?v))"
  let ?env = "sample_env (Some ?hr)"
  let ?h = "sample_heap (Method echo_tool)"
  let ?h' = "wrapped_sample_heap (Method echo_tool)"
  let ?p = "JObj [(''path'', JStr ''/etc/hosts'')]"
  let ?tc = "\<lparr>tc_toolName = ''exec'', tc_agentId = None, tc_sessionKey = None\<rparr>"
  let ?rb = "RunBeforeToolCall \<lparr>ev_toolName = ''exec'', ev_params = ?p\<rparr> ?tc"
  let ?w1 = "\<lparr>events = [?rb], clock = 1000\<rparr>"
  let ?w2 = "\<lparr>events = [?rb, ToolExecuted ''call-1'' ?p None None], clock = 1005\<rparr>"
  have g: "getGlobalHookRunner ?env = Some ?hr"
    by (simp add: sample_env_def)
  have hh: "hasHooks ?hr ''tool_result_received'' = Inr True"
    by (simp add: sample_runner_def)
  have e: "get_prop (objs ?h 0) ''execute'' = Inr (Method echo_tool)"
    by (rule sample_execute)
  have wr: "wrapToolWithBeforeToolCallHook 0 None ?h = Inr (1, ?h')"
    by (rule sample_wrap) simp
  have tn: "captured_name (objs ?h 0) = ''bash''"
    by (rule sample_captured_name)
  have nm: "normalizeToolName ?env ''bash'' = ''exec''"
    by (simp add: sample_env_def sample_normalize_def)
  have tc: "tool_context_of ''exec'' None = ?tc"
    by (simp add: tool_context_of_def)
  have ra: "runToolResultReceived ?hr
      \<lparr>ev_toolName = ''exec'', ev_params = ?p, ev_result = ?p, ev_durationMs = Some 5\<rparr>
      (tool_context_of ''exec'' None) = Inr (Some ?v)"
    by (simp add: sample_runner_def)
  have bl: "block ?v = Some True"
    by simp
  have b: "runBeforeToolCallHook ?env ''bash'' ?p (Some ''call-1'') None w0 = (Inr (Allowed ?p), ?w1)"
    by (simp add: runBeforeToolCallHook_def sample_env_def sample_runner_def sample_normalize_def
        str_or_def isPlainObject_def tool_context_of_def emit_def w0_def Let_def)
  have x: "call ?env None echo_tool ''call-1'' ?p None None ?w1 = (Inr ?p, ?w2)"
    by (simp add: echo_tool_def emit_def)
  have d: "Some 5 = Some (clock ?w2 - clock ?w1)"
    by simp
  note inst = C6_after_block_discards_result[
      where p' = ?p and r = ?p and d = "Some 5" and ctx = None and c = "Some ''call-1''"
        and c' = "''call-1''" and p = ?p and w = w0 and ?w1.0 = ?w1 and ?w2.0 = ?w2
        and sg = None and up = None,
      OF g hh _ bl e wr, unfolded tn nm, OF ra]
  have c1: "fst (runToolResultReceivedHook ?env ''bash'' ?p ?p (Some ''call-1'') None (Some 5) ?w2)
     = Inr \<lparr>blocked = True, reason = Some ''Tool result blocked by plugin hook'',
            outcome_result = ?p\<rparr>"
    using inst[THEN conjunct1] by simp
  have c2: "invoke ?env ?h' 1 ''call-1'' ?p None None w0
     = (Inl (JsError ''Error'' ''Tool result blocked by plugin hook''),
        \<lparr>events = [?rb, ToolExecuted ''call-1'' ?p None None,
           RunToolResultReceived
             \<lparr>ev_toolName = ''exec'', ev_params = ?p, ev_result = ?p, ev_durationMs = Some 5\<rparr> ?tc],
         clock = 1005\<rparr>)"
    using inst[THEN conjunct2, rule_format, OF b x d] by (simp add: tc new_Error_def)
  show ?thesis
    using g hh e wr x c1 c2 by blast
qed



text \<open>
  C8 (underlying tool failure). When the before-call hook allows the call and the
  execution capability of the underlying tool throws or rejects, the wrapped call
  rejects with the same value and ends in the state the tool left: the after-call
  hook is not run and nothing is logged; an underlying tool has been executed once.
\<close>

theorem C8_tool_failure_propagates:
  fixes env :: env and h :: heap and tool :: nat
  defines "tn \<equiv> captured_name (objs h tool)"
  assumes "runBeforeToolCallHook env tn p (Some c) ctx w = (Inr (Allowed p'), w1)"
    and "call env None ex c p' sg up w1 = (Inl e, w2)"
    and "get_prop (objs h tool) ''execute'' = Inr (Method ex)"
    and "wrapToolWithBeforeToolCallHook tool ctx h = Inr (tool', h')"
  shows "invoke env h' tool' c p sg up w = (Inl e, w2)
       \<and> (\<forall>f. ex = Native f \<longrightarrow>
            events (snd (invoke env h' tool' c p sg up w))
              = events w1 @ [ToolExecuted c p' sg up])"
proof -
  have inv: "invoke env h' tool' c p sg up w = call env None (Hooked tn ex ctx) c p sg up w"
    unfolding tn_def using invoke_wrapped[OF assms(4) _ assms(5)] by simp
  have r: "invoke env h' tool' c p sg up w = (Inl e, w2)"
    using assms(2,3) by (simp add: inv)
  have "events w2 = events w1 @ [ToolExecuted c p' sg up]" if "ex = Native f" for f
    using assms(3) that by (auto simp: emit_def split: prod.splits)
  then show ?thesis
    using r by simp
qed

text \<open>C8 on a tool that throws a \<open>TypeError\<close>.\<close>

theorem C8_witness:
  "runBeforeToolCallHook (sample_env (Some (sample_runner (Inr None) (Inr None))))
       ''bash'' (JObj [(''path'', JStr ''/etc/hosts'')]) (Some ''call-1'') None w0
     = (Inr (Allowed (JObj [(''path'', JStr ''/etc/hosts'')])),
        \<lparr>events =
          [RunBeforeToolCall
             \<lparr>ev_toolName = ''exec'', ev_params = JObj [(''path'', JStr ''/etc/hosts'')]\<rparr>
             \<lparr>tc_toolName = ''exec'', tc_agentId = None, tc_sessionKey = None\<rparr>],
         clock = 1000\<rparr>)
   \<and> get_prop (objs (sample_heap (Method failing_tool)) 0) ''execute'' = Inr (Method failing_tool)
   \<and> wrapToolWithBeforeToolCallHook 0 None (sample_heap (Method failing_tool))
       = Inr (1, wrapped_sample_heap (Method failing_tool))
   \<and> call (sample_env (Some (sample_runner (Inr None) (Inr None))))
       None failing_tool ''call-1'' (JObj [(''path'', JStr ''/etc/hosts'')]) None None
        \<lparr>events =
          [RunBeforeToolCall
             \<lparr>ev_toolName = ''exec'', ev_params = JObj [(''path'', JStr ''/etc/hosts'')]\<rparr>
             \<lparr>tc_toolName = ''exec'', tc_agentId = None, tc_sessionKey = None\<rparr>],
         clock = 1000\<rparr>
     = (Inl (JsError ''TypeError'' ''boom''),
        \<lparr>events =
          [RunBeforeToolCall
             \<lparr>ev_toolName = ''exec'', ev_params = JObj [(''path'', JStr ''/etc/hosts'')]\<rparr>
             \<lparr>tc_toolName = ''exec'', tc_agentId = None, tc_sessionKey = None\<rparr>,
           ToolExecuted ''call-1'' (JObj [(''path'', JStr ''/etc/hosts'')]) None None],
         clock = 1002\<rparr>)
   \<and> invoke (sample_env (Some (sample_runner (Inr None) (Inr None))))
       (wrapped_sample_heap (Method failing_tool)) 1
       ''call-1'' (JObj [(''path'', JStr ''/etc/hosts'')]) None None w0
     = (Inl (JsError ''TypeError'' ''boom''),
        \<lparr>events =
          [RunBeforeToolCall
             \<lparr>ev_toolName = ''exec'', ev_params = JObj [(''path'', JStr ''/etc/hosts'')]\<rparr>
             \<lparr>tc_toolName = ''exec'', tc_agentId = None, tc_sessionKey = None\<rparr>,
           ToolExecuted ''call-1'' (JObj [(''path'', JStr ''/etc/hosts'')]) None None],
         clock = 1002\<rparr>)"
proof -
  let ?hr = "sample_runner (Inr None) (Inr None)"
  let ?env = "sample_env (Some ?hr)"
  let ?h = "sample_heap (Method failing_tool)"
  let ?h' = "wrapped_sample_heap (Method failing_tool)"
  let ?p = "JObj [(''path'', JStr ''/etc/hosts'')]"
  let ?tc = "\<lparr>tc_toolName = ''exec'', tc_agentId = None, tc_sessionKey = None\<rparr>"
  let ?rb = "RunBeforeToolCall \<lparr>ev_toolName = ''exec'', ev_params = ?p\<rparr> ?tc"
  let ?w1 = "\<lparr>events = [?rb], clock = 1000\<rparr>"
  let ?w2 = "\<lparr>events = [?rb, ToolExecuted ''call-1'' ?p None None], clock = 1002\<rparr>"
  have e: "get_prop (objs ?h 0) ''execute'' = Inr (Method failing_tool)"
    by (rule sample_execute)
  have wr: "wrapToolWithBeforeToolCallHook 0 None ?h = Inr (1, ?h')"
    by (rule sample_wrap) simp
  have tn: "captured_name (objs ?h 0) = ''bash''"
    by (rule sample_captured_name)
  have b: "runBeforeToolCallHook ?env ''bash'' ?p (Some ''call-1'') None w0
      = (Inr (Allowed ?p), ?w1)"
    by (simp add: runBeforeToolCallHook_def sample_env_def sample_runner_def sample_normalize_def
        str_or_def isPlainObject_def tool_context_of_def emit_def w0_def Let_def)
  have x: "call ?env None failing_tool ''call-1'' ?p None None ?w1
      = (Inl (JsError ''TypeError'' ''boom''), ?w2)"
    by (simp add: failing_tool_def emit_def)
  have c: "invoke ?env ?h' 1 ''call-1'' ?p None None w0
      = (Inl (JsError ''TypeError'' ''boom''), ?w2)"
    using C8_tool_failure_propagates[where h = ?h and tool = 0 and ctx = None,
        unfolded tn, OF b x e wr, THEN conjunct1] .
  show ?thesis
    using b e wr x c by blast
qed




text \<open>
  C10 (block reasons are never empty). Whenever \<open>runBeforeToolCallHook\<close> returns
  \<open>Blocked\<close>, or \<open>runToolResultReceivedHook\<close> returns \<open>blocked: true\<close>, the reason is a
  non-empty string; a blocking verdict whose \<open>blockReason\<close> is absent or the empty
  string gets the fixed default message of its hook; and a wrapped call that fails
  because either hook blocked fails with an \<open>Error\<close> whose message is that non-empty
  reason.
\<close>

theorem C10_block_reason_non_empty:
  fixes env :: env and tn :: string
  defines "toolName \<equiv> normalizeToolName env (str_or tn ''tool'')"
  shows
    "(\<forall>m. fst (runBeforeToolCallHook env tn p c ctx w) = Inr (Blocked m) \<longrightarrow> m \<noteq> [])
   \<and> (\<forall>out. fst (runToolResultReceivedHook env tn p r c ctx d w) = Inr out \<longrightarrow> blocked out \<longrightarrow>
         (\<exists>m. reason out = Some m \<and> m \<noteq> []))
   \<and> (\<forall>hr v. getGlobalHookRunner env = Some hr \<longrightarrow>
         hasHooks hr ''before_tool_call'' = Inr True \<longrightarrow>
         runBeforeToolCall hr
           \<lparr>ev_toolName = toolName, ev_params = (if isPlainObject p then p else JObj [])\<rparr>
           (tool_context_of toolName ctx) = Inr (Some v) \<longrightarrow>
         block v = Some True \<longrightarrow>
         (blockReason v = None \<or> blockReason v = Some []) \<longrightarrow>
         fst (runBeforeToolCallHook env tn p c ctx w)
           = Inr (Blocked ''Tool call blocked by plugin hook''))
   \<and> (\<forall>hr v. getGlobalHookRunner env = Some hr \<longrightarrow>
         hasHooks hr ''tool_result_received'' = Inr True \<longrightarrow>
         runToolResultReceived hr
           \<lparr>ev_toolName = toolName, ev_params = p, ev_result = r, ev_durationMs = d\<rparr>
           (tool_context_of toolName ctx) = Inr (Some v) \<longrightarrow>
         block v = Some True \<longrightarrow>
         (blockReason v = None \<or> blockReason v = Some []) \<longrightarrow>
         fst (runToolResultReceivedHook env tn p r c ctx d w)
           = Inr \<lparr>blocked = True, reason = Some ''Tool result blocked by plugin hook'',
                  outcome_result = r\<rparr>)
   \<and> (\<forall>m this ex c' sg up.
         fst (runBeforeToolCallHook env tn p (Some c') ctx w) = Inr (Blocked m) \<longrightarrow>
         fst (call env this (Hooked tn ex ctx) c' p sg up w) = Inl (new_Error m) \<and> m \<noteq> [])
   \<and> (\<forall>this ex c' sg up q wa wb out.
         runBeforeToolCallHook env tn q (Some c') ctx wa = (Inr (Allowed p), wb) \<longrightarrow>
         call env None ex c' p sg up wb = (Inr r, w) \<longrightarrow>
         fst (runToolResultReceivedHook env tn p r (Some c') ctx (Some (clock w - clock wb)) w)
           = Inr out \<longrightarrow>
         blocked out \<longrightarrow>
         (\<exists>m. fst (call env this (Hooked tn ex ctx) c' q sg up wa) = Inl (new_Error m) \<and> m \<noteq> []))"
proof -
  have od: "or_default x d' \<noteq> []" if "d' \<noteq> []" for x d'
    using that by (auto simp: or_default_def split: option.splits)
  have b: "m \<noteq> []" if "fst (runBeforeToolCallHook env tn p c ctx w) = Inr (Blocked m)" for m c
    using that od[of "''Tool call blocked by plugin hook''"]
    by (auto simp: runBeforeToolCallHook_def Let_def
        split: option.splits sum.splits bool.splits if_splits)
  have a: "\<exists>m. reason out = Some m \<and> m \<noteq> []"
    if "fst (runToolResultReceivedHook env tn p r c ctx d w) = Inr out" "blocked out" for out c d
    using that od[of "''Tool result blocked by plugin hook''"]
    by (auto simp: runToolResultReceivedHook_def Let_def
        split: option.splits sum.splits bool.splits if_splits)
  have b0: "fst (runBeforeToolCallHook env tn p c ctx w)
           = Inr (Blocked ''Tool call blocked by plugin hook'')"
    if "getGlobalHookRunner env = Some hr" "hasHooks hr ''before_tool_call'' = Inr True"
      "runBeforeToolCall hr
           \<lparr>ev_toolName = toolName, ev_params = (if isPlainObject p then p else JObj [])\<rparr>
           (tool_context_of toolName ctx) = Inr (Some v)"
      "block v = Some True" "blockReason v = None \<or> blockReason v = Some []" for hr v
    using that unfolding toolName_def
    by (auto simp: runBeforeToolCallHook_def Let_def is_true_def or_default_def)
  have a0: "fst (runToolResultReceivedHook env tn p r c ctx d w)
           = Inr \<lparr>blocked = True, reason = Some ''Tool result blocked by plugin hook'',
                  outcome_result = r\<rparr>"
    if "getGlobalHookRunner env = Some hr" "hasHooks hr ''tool_result_received'' = Inr True"
      "runToolResultReceived hr
           \<lparr>ev_toolName = toolName, ev_params = p, ev_result = r, ev_durationMs = d\<rparr>
           (tool_context_of toolName ctx) = Inr (Some v)"
      "block v = Some True" "blockReason v = None \<or> blockReason v = Some []" for hr v
    using that unfolding toolName_def
    by (auto simp: runToolResultReceivedHook_def Let_def is_true_def or_default_def)
  have cb: "fst (call env this (Hooked tn ex ctx) c' p sg up w) = Inl (new_Error m) \<and> m \<noteq> []"
    if "fst (runBeforeToolCallHook env tn p (Some c') ctx w) = Inr (Blocked m)" for m this ex c' sg up
    using that b[OF that]
    by (cases "runBeforeToolCallHook env tn p (Some c') ctx w") simp
  have ca: "\<exists>m. fst (call env this (Hooked tn ex ctx) c' q sg up wa) = Inl (new_Error m) \<and> m \<noteq> []"
    if "runBeforeToolCallHook env tn q (Some c') ctx wa = (Inr (Allowed p), wb)"
      "call env None ex c' p sg up wb = (Inr r, w)"
      "fst (runToolResultReceivedHook env tn p r (Some c') ctx (Some (clock w - clock wb)) w)
           = Inr out"
      "blocked out" for this ex c' sg up q wa wb out
    using that a[OF that(3,4)]
    by (cases "runToolResultReceivedHook env tn p r (Some c') ctx (Some (clock w - clock wb)) w")
      auto
  have c1: "\<forall>m. fst (runBeforeToolCallHook env tn p c ctx w) = Inr (Blocked m) \<longrightarrow> m \<noteq> []"
    using b by blast
  have c2: "\<forall>out. fst (runToolResultReceivedHook env tn p r c ctx d w) = Inr out \<longrightarrow> blocked out \<longrightarrow>
         (\<exists>m. reason out = Some m \<and> m \<noteq> [])"
    using a by blast
  have c3: "\<forall>hr v. getGlobalHookRunner env = Some hr \<longrightarrow>
         hasHooks hr ''before_tool_call'' = Inr True \<longrightarrow>
         runBeforeToolCall hr
           \<lparr>ev_toolName = toolName, ev_params = (if isPlainObject p then p else JObj [])\<rparr>
           (tool_context_of toolName ctx) = Inr (Some v) \<longrightarrow>
         block v = Some True \<longrightarrow>
         (blockReason v = None \<or> blockReason v = Some []) \<longrightarrow>
         fst (runBeforeToolCallHook env tn p c ctx w)
           = Inr (Blocked ''Tool call blocked by plugin hook'')"
    using b0 by blast
  have c4: "\<forall>hr v. getGlobalHookRunner env = Some hr \<longrightarrow>
         hasHooks hr ''tool_result_received'' = Inr True \<longrightarrow>
         runToolResultReceived hr
           \<lparr>ev_toolName = toolName, ev_params = p, ev_result = r, ev_durationMs = d\<rparr>
           (tool_context_of toolName ctx) = Inr (Some v) \<longrightarrow>
         block v = Some True \<longrightarrow>
         (blockReason v = None \<or> blockReason v = Some []) \<longrightarrow>
         fst (runToolResultReceivedHook env tn p r c ctx d w)
           = Inr \<lparr>blocked = True, reason = Some ''Tool result blocked by plugin hook'',
                  outcome_result = r\<rparr>"
    using a0 by blast
  have c5: "\<forall>m this ex c' sg up.
         fst (runBeforeToolCallHook env tn p (Some c') ctx w) = Inr (Blocked m) \<longrightarrow>
         fst (call env this (Hooked tn ex ctx) c' p sg up w) = Inl (new_Error m) \<and> m \<noteq> []"
    using cb by blast
  have c6: "\<forall>this ex c' sg up q wa wb out.
         runBeforeToolCallHook env tn q (Some c') ctx wa = (Inr (Allowed p), wb) \<longrightarrow>
         call env None ex c' p sg up wb = (Inr r, w) \<longrightarrow>
         fst (runToolResultReceivedHook env tn p r (Some c') ctx (Some (clock w - clock wb)) w)
           = Inr out \<longrightarrow>
         blocked out \<longrightarrow>
         (\<exists>m. fst (call env this (Hooked tn ex ctx) c' q sg up wa) = Inl (new_Error m) \<and> m \<noteq> [])"
    using ca by blast
  show ?thesis
    by (intro conjI c1 c2 c3 c4 c5 c6)
qed

text \<open>C10 on handlers that block with the empty string as their reason.\<close>

theorem C10_witness:
  "getGlobalHookRunner (sample_env (Some (sample_runner
       (Inr (Some \<lparr>block = Some True, blockReason = Some [], params = JUndefined\<rparr>))
       (Inr (Some \<lparr>block = Some True, blockReason = Some [], result = JUndefined\<rparr>)))))
     = Some (sample_runner
       (Inr (Some \<lparr>block = Some True, blockReason = Some [], params = JUndefined\<rparr>))
       (Inr (Some \<lparr>block = Some True, blockReason = Some [], result = JUndefined\<rparr>)))
   \<and> fst (runBeforeToolCallHook (sample_env (Some (sample_runner
       (Inr (Some \<lparr>block = Some True, blockReason = Some [], params = JUndefined\<rparr>))
       (Inr (Some \<lparr>block = Some True, blockReason = Some [], result = JUndefined\<rparr>)))))
       ''bash'' (JStr ''raw-string'') (Some ''call-1'') None w0)
     = Inr (Blocked ''Tool call blocked by plugin hook'')
   \<and> fst (runToolResultReceivedHook (sample_env (Some (sample_runner
       (Inr (Some \<lparr>block = Some True, blockReason = Some [], params = JUndefined\<rparr>))
       (Inr (Some \<lparr>block = Some True, blockReason = Some [], result = JUndefined\<rparr>)))))
       ''bash'' (JStr ''raw-string'') (JNum 7) (Some ''call-1'') None (Some 5) w0)
     = Inr \<lparr>blocked = True, reason = Some ''Tool result blocked by plugin hook'',
            outcome_result = JNum 7\<rparr>
   \<and> fst (call (sample_env (Some (sample_runner
       (Inr (Some \<lparr>block = Some True, blockReason = Some [], params = JUndefined\<rparr>))
       (Inr (Some \<lparr>block = Some True, blockReason = Some [], result = JUndefined\<rparr>)))))
       None (Hooked ''bash'' echo_tool None) ''call-1'' (JStr ''raw-string'') None None w0)
     = Inl (JsError ''Error'' ''Tool call blocked by plugin hook'')"
proof -
  let ?vb = "\<lparr>block = Some True, blockReason = Some [], params = JUndefined\<rparr>"
  let ?va = "\<lparr>block = Some True, blockReason = Some [], result = JUndefined\<rparr>"
  let ?hr = "sample_runner (Inr (Some ?vb)) (Inr (Some ?va))"
  let ?env = "sample_env (Some ?hr)"
  let ?p = "JStr ''raw-string''"
  have g: "getGlobalHookRunner ?env = Some ?hr"
    by (simp add: sample_env_def)
  have hb: "hasHooks ?hr ''before_tool_call'' = Inr True"
    and ha: "hasHooks ?hr ''tool_result_received'' = Inr True"
    by (simp_all add: sample_runner_def)
  have rb: "runBeforeToolCall ?hr
      \<lparr>ev_toolName = normalizeToolName ?env (str_or ''bash'' ''tool''),
        ev_params = (if isPlainObject ?p then ?p else JObj [])\<rparr>
      (tool_context_of (normalizeToolName ?env (str_or ''bash'' ''tool'')) None) = Inr (Some ?vb)"
    by (simp add: sample_runner_def)
  have ra: "runToolResultReceived ?hr
      \<lparr>ev_toolName = normalizeToolName ?env (str_or ''bash'' ''tool''),
        ev_params = ?p, ev_result = JNum 7, ev_durationMs = Some 5\<rparr>
      (tool_context_of (normalizeToolName ?env (str_or ''bash'' ''tool'')) None) = Inr (Some ?va)"
    by (simp add: sample_runner_def)
  note inst = C10_block_reason_non_empty[where env = ?env and tn = "''bash''" and p = ?p
      and c = "Some ''call-1''" and ctx = None and w = w0 and r = "JNum 7" and d = "Some 5"]
  have c1: "fst (runBeforeToolCallHook ?env ''bash'' ?p (Some ''call-1'') None w0)
     = Inr (Blocked ''Tool call blocked by plugin hook'')"
    using inst[THEN conjunct2, THEN conjunct2, THEN conjunct1, rule_format, OF g hb rb]
    by simp
  have c2: "fst (runToolResultReceivedHook ?env ''bash'' ?p (JNum 7) (Some ''call-1'') None (Some 5) w0)
     = Inr \<lparr>blocked = True, reason = Some ''Tool result blocked by plugin hook'',
            outcome_result = JNum 7\<rparr>"
    using inst[THEN conjunct2, THEN conjunct2, THEN conjunct2, THEN conjunct1, rule_format,
        OF g ha ra]
    by simp
  have c3: "fst (call ?env None (Hooked ''bash'' echo_tool None) ''call-1'' ?p None None w0)
     = Inl (JsError ''Error'' ''Tool call blocked by plugin hook'')"
    using inst[THEN conjunct2, THEN conjunct2, THEN conjunct2, THEN conjunct2, THEN conjunct1,
        rule_format, OF c1, THEN conjunct1]
    by (simp add: new_Error_def)
  show ?thesis
    using g c1 c2 c3 by blast
qed

end
